theory Spec2Isabelle
  imports Main
begin

section \<open>Omni CLI: tool registry, approval gate and agent core\<close>

text \<open>
  A shallow embedding of \<^verbatim>\<open>src/tools/index.ts\<close> and \<^verbatim>\<open>src/agent.ts\<close>.
  JavaScript strings are lists of characters (one \<open>char\<close> per code unit), a thrown
  exception is the left summand of a result, and everything the TypeScript reads from its
  surroundings (the clock, random identifiers, the registered executors, the approver callback,
  the streaming connector) is an explicit argument.
\<close>

subsection \<open>Values shared by both modules\<close>

datatype js_error = Error string | TypeError string

fun error_message :: "js_error \<Rightarrow> string" where
  "error_message (Error m) = m"
| "error_message (TypeError m) = m"

text \<open>
  The arguments of a tool call are an object the code looks at in two ways only: as a
  whole, through \<^verbatim>\<open>JSON.stringify(args)\<close>, and, in the \<open>think\<close> tool, through the template
  literal \<^verbatim>\<open>${args.thought}\<close>. An argument object is given by what these two yield; the
  second is the text \<^verbatim>\<open>undefined\<close> for an object without that property.
\<close>

record args =
  args_json :: string
  args_thought :: string

record ToolResult =
  tr_success :: bool
  tr_output :: "string option"
  tr_error :: "string option"

datatype ApprovalPolicy = Untrusted | OnFailure | OnRequest | Never

datatype request_type = FileWrite | FileDelete | ShellCommand | NetworkRequest | McpCall

record ApprovalRequest =
  req_id :: string
  req_type :: request_type
  req_description :: string
  req_details :: args
  req_timestamp :: nat

subsection \<open>String helpers of the JavaScript runtime\<close>

fun startsWith :: "string \<Rightarrow> string \<Rightarrow> bool" where
  "startsWith s [] = True"
| "startsWith [] (c # cs) = False"
| "startsWith (x # xs) (c # cs) = (x = c \<and> startsWith xs cs)"

text \<open>\<^verbatim>\<open>s.includes(sub)\<close>: \<open>sub\<close> occurs in \<open>s\<close> as a contiguous run.\<close>

fun str_includes :: "string \<Rightarrow> string \<Rightarrow> bool" where
  "str_includes [] sub = (sub = [])"
| "str_includes (x # xs) sub = (startsWith (x # xs) sub \<or> str_includes xs sub)"

subsection \<open>Tool registry (\<^verbatim>\<open>src/tools/index.ts\<close>)\<close>

datatype category = File | Shell | Web | Mcp | Memory | SystemTool

text \<open>
  \<^verbatim>\<open>RegisteredTool\<close>; the parameter schema is data handed to the model and is left out.
  An executor either resolves to a result or rejects.
\<close>

record RegisteredTool =
  tool_name :: string
  tool_category :: category
  tool_description :: string
  requiresApproval :: bool
  execute :: "args \<Rightarrow> js_error + ToolResult"

text \<open>
  \<^verbatim>\<open>toolRegistry\<close> is a JavaScript \<^verbatim>\<open>Map\<close>: keys keep their insertion order and
  \<^verbatim>\<open>set\<close> on a present key replaces the value in place.
\<close>

type_synonym registry = "(string \<times> RegisteredTool) list"

fun registerTool :: "RegisteredTool \<Rightarrow> registry \<Rightarrow> registry" where
  "registerTool tool [] = [(tool_name tool, tool)]"
| "registerTool tool ((k, v) # rest) =
     (if k = tool_name tool then (k, tool) # rest else (k, v) # registerTool tool rest)"

definition getTool :: "registry \<Rightarrow> string \<Rightarrow> RegisteredTool option" where
  "getTool reg n = map_of reg n"

definition getAllTools :: "registry \<Rightarrow> RegisteredTool list" where
  "getAllTools reg = map snd reg"

definition getToolsByCategory :: "registry \<Rightarrow> category \<Rightarrow> RegisteredTool list" where
  "getToolsByCategory reg c = filter (\<lambda>t. tool_category t = c) (getAllTools reg)"

text \<open>
  The built-in tool tables \<^verbatim>\<open>fileTools\<close>, \<^verbatim>\<open>shellTools\<close> and \<^verbatim>\<open>webTools\<close> live in modules
  outside this development; they are arguments: each entry is a name with a description and
  an executor.
\<close>

type_synonym tool_table = "(string \<times> string \<times> (args \<Rightarrow> js_error + ToolResult)) list"

definition thinkTool :: RegisteredTool where
  "thinkTool =
     \<lparr>tool_name = ''think'', tool_category = SystemTool,
      tool_description = ''Use this tool to think through complex problems step by step'',
      requiresApproval = False,
      execute = (\<lambda>a. Inr \<lparr>tr_success = True, tr_output = Some (''Thought: '' @ args_thought a),
                             tr_error = None\<rparr>)\<rparr>"

definition initializeBuiltInTools :: "tool_table \<Rightarrow> tool_table \<Rightarrow> tool_table \<Rightarrow> registry \<Rightarrow> registry" where
  "initializeBuiltInTools fileTools shellTools webTools reg =
     (let r1 = foldl (\<lambda>r (n, d, ex). registerTool
                 \<lparr>tool_name = n, tool_category = File, tool_description = d,
                  requiresApproval = (str_includes n ''write'' \<or> str_includes n ''edit'' \<or> str_includes n ''delete''),
                  execute = ex\<rparr> r) reg fileTools;
          r2 = foldl (\<lambda>r (n, d, ex). registerTool
                 \<lparr>tool_name = n, tool_category = Shell, tool_description = d,
                  requiresApproval = True, execute = ex\<rparr> r) r1 shellTools;
          r3 = foldl (\<lambda>r (n, d, ex). registerTool
                 \<lparr>tool_name = n, tool_category = Web, tool_description = d,
                  requiresApproval = False, execute = ex\<rparr> r) r2 webTools
      in registerTool thinkTool r3)"

subsection \<open>Tool execution with approval\<close>

record ToolExecutionContext =
  ctx_sandbox :: string
  ctx_workspaceDir :: string
  ctx_approvalPolicy :: ApprovalPolicy
  ctx_onApprovalRequest :: "(ApprovalRequest \<Rightarrow> js_error + bool) option"

text \<open>
  What \<^verbatim>\<open>executeTool\<close> does to its surroundings, in order: a prompt of the approver, a call of
  the tool's executor.
\<close>

datatype effect = Prompted ApprovalRequest | Executed string args

definition needsApproval :: "RegisteredTool \<Rightarrow> ToolExecutionContext \<Rightarrow> bool" where
  "needsApproval tool context =
     (requiresApproval tool \<and> ctx_approvalPolicy context \<noteq> Never \<and>
      (ctx_approvalPolicy context = Untrusted \<or> ctx_approvalPolicy context = OnRequest))"

definition approvalRequest :: "RegisteredTool \<Rightarrow> string \<Rightarrow> args \<Rightarrow> string \<Rightarrow> nat \<Rightarrow> ApprovalRequest" where
  "approvalRequest tool toolName a rid now =
     \<lparr>req_id = rid,
      req_type = (if tool_category tool = File \<and> str_includes toolName ''write'' then FileWrite
                  else if tool_category tool = Shell then ShellCommand else McpCall),
      req_description = tool_name tool @ '': '' @ args_json a,
      req_details = a,
      req_timestamp = now\<rparr>"

text \<open>The \<^verbatim>\<open>try\<close> block: a rejecting executor becomes a failed result.\<close>

definition runExecutor :: "RegisteredTool \<Rightarrow> string \<Rightarrow> args \<Rightarrow> effect list \<Rightarrow> (js_error + ToolResult) \<times> effect list" where
  "runExecutor tool toolName a earlier =
     (case execute tool a of
        Inr result \<Rightarrow> (Inr result, earlier @ [Executed toolName a])
      | Inl e \<Rightarrow>
          (Inr \<lparr>tr_success = False, tr_output = None,
                tr_error = Some (''Tool execution failed: '' @ error_message e)\<rparr>,
           earlier @ [Executed toolName a]))"

text \<open>
  \<^verbatim>\<open>executeTool(toolName, args, context)\<close>. \<open>rid\<close> and \<open>now\<close> are the request identifier and
  the clock reading the function would draw. The approver is awaited outside the
  \<^verbatim>\<open>try\<close> block, so its rejection leaves the function as a rejection.
\<close>

definition executeTool ::
  "registry \<Rightarrow> string \<Rightarrow> args \<Rightarrow> ToolExecutionContext \<Rightarrow> string \<Rightarrow> nat \<Rightarrow> (js_error + ToolResult) \<times> effect list" where
  "executeTool reg toolName a context rid now =
     (case getTool reg toolName of
        None \<Rightarrow> (Inr \<lparr>tr_success = False, tr_output = None, tr_error = Some (''Unknown tool: '' @ toolName)\<rparr>, [])
      | Some tool \<Rightarrow>
          (case (if needsApproval tool context then ctx_onApprovalRequest context else None) of
             Some approver \<Rightarrow>
               (let request = approvalRequest tool toolName a rid now in
                case approver request of
                  Inl e \<Rightarrow> (Inl e, [Prompted request])
                | Inr approved \<Rightarrow>
                    if \<not> approved
                    then (Inr \<lparr>tr_success = False, tr_output = None,
                               tr_error = Some ''Operation was not approved by user''\<rparr>, [Prompted request])
                    else runExecutor tool toolName a [Prompted request])
           | None \<Rightarrow> runExecutor tool toolName a []))"

text \<open>\<^verbatim>\<open>createToolExecutor\<close>: the result rendered as the text handed back to the model.\<close>

definition createToolExecutor ::
  "registry \<Rightarrow> ToolExecutionContext \<Rightarrow> string \<Rightarrow> args \<Rightarrow> string \<Rightarrow> nat \<Rightarrow> (js_error + string) \<times> effect list" where
  "createToolExecutor reg context toolName a rid now =
     (case executeTool reg toolName a context rid now of
        (Inl e, tr) \<Rightarrow> (Inl e, tr)
      | (Inr result, tr) \<Rightarrow>
          (if tr_success result
           then (Inr (case tr_output result of None \<Rightarrow> ''Success'' | Some out \<Rightarrow> if out = [] then ''Success'' else out), tr)
           else (Inr (''Error: '' @ (case tr_error result of None \<Rightarrow> ''undefined'' | Some m \<Rightarrow> m)), tr)))"

subsection \<open>Data of the agent (\<^verbatim>\<open>src/types.ts\<close>, \<^verbatim>\<open>src/agent.ts\<close>)\<close>

datatype role = System | User | Assistant | Tool

text \<open>A message body is a string or structured content; the agent only inspects strings.\<close>

datatype content = Text string | Complex

record message =
  role :: role
  content :: content

text \<open>
  An array slot holds a message or \<^verbatim>\<open>undefined\<close> (\<open>None\<close>): reading index 0 of an empty
  array yields \<^verbatim>\<open>undefined\<close>, and \<^verbatim>\<open>clear\<close> stores what it read.
\<close>

type_synonym slot = "message option"

record SessionStats =
  startTime :: nat
  promptTokens :: nat
  completionTokens :: nat
  totalTokens :: nat
  toolCalls :: nat
  fileReads :: nat
  fileWrites :: nat
  shellCommands :: nat

record checkpoint_context =
  cc_provider :: string
  cc_model :: string
  cc_workingDir :: string

record SessionCheckpoint =
  cp_id :: string
  cp_tag :: "string option"
  cp_timestamp :: nat
  cp_messages :: "slot list"
  cp_context :: checkpoint_context
  cp_stats :: SessionStats

record Session =
  session_id :: string
  checkpoints :: "SessionCheckpoint list"
  currentCheckpoint :: int
  stats :: SessionStats

record LoadedContextFile =
  cf_path :: string
  cf_content :: string
  cf_type :: string

record OmniConfig =
  cfg_provider :: string
  cfg_model :: string
  cfg_sandbox_mode :: string
  cfg_approvalPolicy :: ApprovalPolicy
  maxCheckpoints :: "int option"

record ProviderInstance =
  pi_name :: string
  pi_model :: string

record AgentOptions =
  opt_config :: OmniConfig
  opt_workspaceDir :: string
  opt_provider :: "ProviderInstance option"
  opt_onApprovalRequest :: "(ApprovalRequest \<Rightarrow> js_error + bool) option"

text \<open>
  The private fields of \<^verbatim>\<open>class Agent\<close>. Of \<^verbatim>\<open>options\<close> only the approver is kept. The
  observation hooks (\<^verbatim>\<open>onToken\<close>, \<^verbatim>\<open>onToolCall\<close>, \<^verbatim>\<open>onToolResult\<close>, \<^verbatim>\<open>onError\<close>) are left
  out: they are notified of what the loop sees and hand nothing back to the agent.
\<close>

record Agent =
  config :: OmniConfig
  workspaceDir :: string
  provider :: "ProviderInstance option"
  session :: Session
  messages :: "slot list"
  contextFiles :: "LoadedContextFile list"
  onApprovalRequest :: "(ApprovalRequest \<Rightarrow> js_error + bool) option"

record Usage =
  u_promptTokens :: nat
  u_completionTokens :: nat
  u_totalTokens :: nat

record tool_call =
  tc_name :: string
  tc_args :: args
  tc_result :: ToolResult

record AgentResponse =
  resp_content :: string
  resp_toolCalls :: "tool_call list"
  resp_usage :: Usage

subsection \<open>System prompt\<close>

definition nl :: string where
  "nl = [CHR 0x0A]"

text \<open>\<^verbatim>\<open>Array.prototype.join\<close> on strings.\<close>

fun join :: "string \<Rightarrow> string list \<Rightarrow> string" where
  "join sep [] = []"
| "join sep [x] = x"
| "join sep (x # y # ys) = x @ sep @ join sep (y # ys)"

text \<open>
  What \<^verbatim>\<open>buildSystemPrompt\<close> reads from outside the agent: \<^verbatim>\<open>process.platform\<close> and the
  function \<^verbatim>\<open>formatContextForPrompt\<close> of the configuration module.
\<close>

record env =
  platform :: string
  formatContextForPrompt :: "LoadedContextFile list \<Rightarrow> string"

definition buildSystemPrompt :: "env \<Rightarrow> OmniConfig \<Rightarrow> LoadedContextFile list \<Rightarrow> string \<Rightarrow> string" where
  "buildSystemPrompt e cfg files dir =
     (let contextSection = formatContextForPrompt e files in
      join nl
       [''You are Omni, a powerful AI coding assistant running in the terminal.'',
        [],
        ''## Capabilities'',
        ''- Read, write, and edit files'',
        ''- Execute shell commands'',
        ''- Search the web for information'',
        ''- Use MCP (Model Context Protocol) tools'',
        ''- Help with coding, debugging, and system tasks'',
        [],
        ''## Current Environment'',
        ''- Working Directory: '' @ dir,
        ''- Sandbox Mode: '' @ cfg_sandbox_mode cfg,
        ''- Platform: '' @ platform e,
        [],
        ''## Guidelines'',
        ''1. Be concise and direct in responses'',
        ''2. Use tools to accomplish tasks rather than just explaining'',
        ''3. Always verify file contents before editing'',
        ''4. Ask for clarification when requirements are unclear'',
        ''5. Respect sandbox restrictions'',
        [],
        ''## Tool Usage'',
        ''- Use read_file to examine file contents'',
        ''- Use write_file to create or overwrite files'',
        ''- Use edit_file for targeted changes'',
        ''- Use shell for command execution'',
        ''- Use web_search for current information'',
        [],
        (if contextSection \<noteq> [] then nl @ ''## Project Context'' @ nl @ contextSection else []),
        [],
        ''When helping with code:'',
        ''- Write clean, well-documented code'',
        ''- Follow the project'' @ [CHR 0x27] @ ''s existing style'',
        ''- Consider edge cases and error handling'',
        ''- Test your changes when possible''])"

definition systemMessage :: "env \<Rightarrow> OmniConfig \<Rightarrow> LoadedContextFile list \<Rightarrow> string \<Rightarrow> slot" where
  "systemMessage e cfg files dir =
     Some \<lparr>role = System, content = Text (buildSystemPrompt e cfg files dir)\<rparr>"

subsection \<open>Construction and initialisation\<close>

definition createInitialStats :: "nat \<Rightarrow> SessionStats" where
  "createInitialStats now =
     \<lparr>startTime = now, promptTokens = 0, completionTokens = 0, totalTokens = 0,
      toolCalls = 0, fileReads = 0, fileWrites = 0, shellCommands = 0\<rparr>"

text \<open>
  The constructor; \<open>sid\<close> is the identifier \<^verbatim>\<open>uuidv4()\<close> returns, \<open>now\<close> the clock, \<open>loaded\<close>
  what \<^verbatim>\<open>loadContextFiles\<close> finds on disk.
\<close>

definition newAgent :: "AgentOptions \<Rightarrow> string \<Rightarrow> nat \<Rightarrow> LoadedContextFile list \<Rightarrow> Agent" where
  "newAgent options sid now loaded =
     \<lparr>config = opt_config options,
      workspaceDir = opt_workspaceDir options,
      provider = opt_provider options,
      session = \<lparr>session_id = sid, checkpoints = [], currentCheckpoint = 0,
                 stats = createInitialStats now\<rparr>,
      messages = [],
      contextFiles = loaded,
      onApprovalRequest = opt_onApprovalRequest options\<rparr>"

text \<open>
  \<^verbatim>\<open>initialize\<close>; \<open>created\<close> is the outcome of \<^verbatim>\<open>createProvider(config.provider, config.model)\<close>,
  consulted only when no provider is set.
\<close>

definition initialize :: "env \<Rightarrow> js_error + ProviderInstance \<Rightarrow> Agent \<Rightarrow> (js_error + unit) \<times> Agent" where
  "initialize e created ag =
     (case provider ag of
        Some p \<Rightarrow>
          (Inr (), ag\<lparr>messages := [systemMessage e (config ag) (contextFiles ag) (workspaceDir ag)]\<rparr>)
      | None \<Rightarrow>
          (case created of
             Inl err \<Rightarrow> (Inl err, ag)
           | Inr p \<Rightarrow>
               (Inr (), ag\<lparr>provider := Some p,
                           messages := [systemMessage e (config ag) (contextFiles ag) (workspaceDir ag)]\<rparr>)))"

subsection \<open>The streaming connector\<close>

text \<open>
  \<^verbatim>\<open>streamText\<close> belongs to the model library. It receives the request below and delivers an
  ordered run of stream parts; then either the stream (or the call itself, or the deferred
  usage) fails with an error, or the usage summary resolves. A tool result carries a string,
  another value (given by its JSON text), or \<^verbatim>\<open>undefined\<close>.
\<close>

datatype payload = StringResult string | JsonResult string | UndefinedResult

datatype part =
    TextDelta string
  | ToolCallPart string args
  | ToolResultPart string args payload
  | OtherPart

type_synonym stream_response = "part list \<times> (js_error + Usage)"

text \<open>
  One entry of \<^verbatim>\<open>buildToolDefinitions\<close>: the tool's name and description and the
  \<^verbatim>\<open>execute\<close> wrapper the library calls, which runs \<^verbatim>\<open>executeTool\<close> and hands back
  \<^verbatim>\<open>result.output\<close> on success and the text \<^verbatim>\<open>Error: ...\<close> otherwise.
\<close>

type_synonym tool_definition =
  "string \<times> string \<times> (args \<Rightarrow> string \<Rightarrow> nat \<Rightarrow> (js_error + string option) \<times> effect list)"

record stream_request =
  rq_model :: ProviderInstance
  rq_messages :: "slot list"
  rq_tools :: "tool_definition list"
  rq_maxSteps :: nat

definition toolContext :: "Agent \<Rightarrow> ToolExecutionContext" where
  "toolContext ag =
     \<lparr>ctx_sandbox = cfg_sandbox_mode (config ag),
      ctx_workspaceDir = workspaceDir ag,
      ctx_approvalPolicy = cfg_approvalPolicy (config ag),
      ctx_onApprovalRequest = onApprovalRequest ag\<rparr>"

definition definitionExecute ::
  "registry \<Rightarrow> Agent \<Rightarrow> string \<Rightarrow> args \<Rightarrow> string \<Rightarrow> nat \<Rightarrow> (js_error + string option) \<times> effect list" where
  "definitionExecute reg ag toolName a rid now =
     (case executeTool reg toolName a (toolContext ag) rid now of
        (Inl e, tr) \<Rightarrow> (Inl e, tr)
      | (Inr result, tr) \<Rightarrow>
          (if tr_success result then (Inr (tr_output result), tr)
           else (Inr (Some (''Error: '' @ (case tr_error result of None \<Rightarrow> ''undefined'' | Some m \<Rightarrow> m))), tr)))"

definition buildToolDefinitions :: "registry \<Rightarrow> Agent \<Rightarrow> tool_definition list" where
  "buildToolDefinitions reg ag =
     map (\<lambda>tool. (tool_name tool, tool_description tool, definitionExecute reg ag (tool_name tool)))
       (getAllTools reg)"

subsection \<open>\<^verbatim>\<open>chat\<close>\<close>

definition updateToolStats :: "string \<Rightarrow> SessionStats \<Rightarrow> SessionStats" where
  "updateToolStats toolName st =
     (let st1 = st\<lparr>toolCalls := toolCalls st + 1\<rparr> in
      if str_includes toolName ''read_file'' \<or> str_includes toolName ''list_directory''
      then st1\<lparr>fileReads := fileReads st1 + 1\<rparr>
      else if str_includes toolName ''write_file'' \<or> str_includes toolName ''edit_file''
      then st1\<lparr>fileWrites := fileWrites st1 + 1\<rparr>
      else if toolName = ''shell'' \<or> str_includes toolName ''process''
      then st1\<lparr>shellCommands := shellCommands st1 + 1\<rparr>
      else st1)"

text \<open>
  \<^verbatim>\<open>typeof part.result === 'string' ? part.result : JSON.stringify(part.result)\<close>;
  \<^verbatim>\<open>JSON.stringify(undefined)\<close> is \<^verbatim>\<open>undefined\<close>.
\<close>

definition payloadText :: "payload \<Rightarrow> string option" where
  "payloadText r = (case r of StringResult t \<Rightarrow> Some t | JsonResult t \<Rightarrow> Some t | UndefinedResult \<Rightarrow> None)"

text \<open>
  One turn of the \<^verbatim>\<open>for await\<close> loop over \<^verbatim>\<open>response.fullStream\<close>; the accumulator is
  \<^verbatim>\<open>fullContent\<close>, the \<^verbatim>\<open>toolCalls\<close> array and the session statistics.
\<close>

definition processPart :: "part \<Rightarrow> string \<times> tool_call list \<times> SessionStats \<Rightarrow> string \<times> tool_call list \<times> SessionStats" where
  "processPart p acc =
     (case acc of (fullContent, calls, st) \<Rightarrow>
        (case p of
           TextDelta d \<Rightarrow> (fullContent @ d, calls, st)
         | ToolCallPart toolName a \<Rightarrow> (fullContent, calls, updateToolStats toolName st)
         | ToolResultPart toolName a r \<Rightarrow>
             (fullContent,
              calls @ [\<lparr>tc_name = toolName, tc_args = a,
                         tc_result = \<lparr>tr_success = True, tr_output = payloadText r, tr_error = None\<rparr>\<rparr>],
              st)
         | OtherPart \<Rightarrow> (fullContent, calls, st)))"

fun processStream :: "part list \<Rightarrow> string \<times> tool_call list \<times> SessionStats \<Rightarrow> string \<times> tool_call list \<times> SessionStats" where
  "processStream [] acc = acc"
| "processStream (p # ps) acc = processStream ps (processPart p acc)"

text \<open>
  The argument of \<^verbatim>\<open>streamText\<close>: the provider's model, the live messages, the tool
  definitions and the literal \<^verbatim>\<open>maxSteps: 10\<close>.
\<close>

definition chatRequest :: "registry \<Rightarrow> ProviderInstance \<Rightarrow> Agent \<Rightarrow> stream_request" where
  "chatRequest reg p ag =
     \<lparr>rq_model = p, rq_messages = messages ag,
      rq_tools = buildToolDefinitions reg ag, rq_maxSteps = 10\<rparr>"

text \<open>
  \<^verbatim>\<open>chat(userMessage)\<close>. The result pairs what the promise settles to (a rejection on the
  left) with the agent afterwards.
\<close>

definition chat ::
  "registry \<Rightarrow> (stream_request \<Rightarrow> stream_response) \<Rightarrow> string \<Rightarrow> Agent \<Rightarrow> (js_error + AgentResponse) \<times> Agent" where
  "chat reg streamText userMessage ag =
     (case provider ag of
        None \<Rightarrow> (Inl (Error ''Agent not initialized. Call initialize() first.''), ag)
      | Some p \<Rightarrow>
          (let ag1 = ag\<lparr>messages := messages ag @ [Some \<lparr>role = User, content = Text userMessage\<rparr>]\<rparr>;
               response = streamText (chatRequest reg p ag1)
           in case processStream (fst response) ([], [], stats (session ag1)) of
                (fullContent, calls, st) \<Rightarrow>
                  (let ag2 = ag1\<lparr>session := (session ag1)\<lparr>stats := st\<rparr>\<rparr> in
                   case snd response of
                     Inl e \<Rightarrow> (Inl e, ag2)
                   | Inr usage \<Rightarrow>
                       (Inr \<lparr>resp_content = fullContent, resp_toolCalls = calls, resp_usage = usage\<rparr>,
                        ag2\<lparr>session := (session ag2)
                               \<lparr>stats := st\<lparr>promptTokens := promptTokens st + u_promptTokens usage,
                                            completionTokens := completionTokens st + u_completionTokens usage,
                                            totalTokens := totalTokens st + u_totalTokens usage\<rparr>\<rparr>,
                             messages := messages ag2 @ [Some \<lparr>role = Assistant, content = Text fullContent\<rparr>]\<rparr>))))"

subsection \<open>Checkpoints\<close>

text \<open>
  \<^verbatim>\<open>this.config.maxCheckpoints || 10\<close>: an absent value and 0 both give 10; any other
  number, a negative one included, is taken as it is.
\<close>

definition checkpointLimit :: "OmniConfig \<Rightarrow> int" where
  "checkpointLimit cfg = (case maxCheckpoints cfg of None \<Rightarrow> 10 | Some m \<Rightarrow> if m = 0 then 10 else m)"

text \<open>
  \<^verbatim>\<open>saveCheckpoint(tag?)\<close>; \<open>cid\<close> is the identifier \<^verbatim>\<open>uuidv4()\<close> returns and \<open>now\<close> the clock.
\<close>

definition saveCheckpoint :: "string option \<Rightarrow> string \<Rightarrow> nat \<Rightarrow> Agent \<Rightarrow> SessionCheckpoint \<times> Agent" where
  "saveCheckpoint tag cid now ag =
     (let checkpoint =
            \<lparr>cp_id = cid, cp_tag = tag, cp_timestamp = now, cp_messages = messages ag,
             cp_context = \<lparr>cc_provider = cfg_provider (config ag), cc_model = cfg_model (config ag),
                           cc_workingDir = workspaceDir ag\<rparr>,
             cp_stats = stats (session ag)\<rparr>;
          pushed = checkpoints (session ag) @ [checkpoint];
          s1 = (session ag)\<lparr>checkpoints := pushed, currentCheckpoint := int (length pushed) - 1\<rparr>;
          s2 = (if int (length (checkpoints s1)) > checkpointLimit (config ag)
                then s1\<lparr>checkpoints := tl (checkpoints s1), currentCheckpoint := currentCheckpoint s1 - 1\<rparr>
                else s1)
      in (checkpoint, ag\<lparr>session := s2\<rparr>))"

text \<open>
  \<^verbatim>\<open>Array.prototype.indexOf\<close>: the first position holding the element, or -1. JavaScript
  compares objects by identity, the model by value; for the checkpoint \<^verbatim>\<open>find\<close> has just
  returned the two agree, since an equal checkpoint at an earlier position would have been
  the one returned.
\<close>

fun indexOf :: "'a list \<Rightarrow> 'a \<Rightarrow> int" where
  "indexOf [] y = - 1"
| "indexOf (x # xs) y = (if x = y then 0 else (let i = indexOf xs y in if i < 0 then - 1 else i + 1))"

definition restoreCheckpoint :: "string \<Rightarrow> Agent \<Rightarrow> bool \<times> Agent" where
  "restoreCheckpoint idOrTag ag =
     (case find (\<lambda>c. cp_id c = idOrTag \<or> cp_tag c = Some idOrTag) (checkpoints (session ag)) of
        None \<Rightarrow> (False, ag)
      | Some checkpoint \<Rightarrow>
          (True, ag\<lparr>messages := cp_messages checkpoint,
                    session := (session ag)
                      \<lparr>currentCheckpoint := indexOf (checkpoints (session ag)) checkpoint\<rparr>\<rparr>))"

subsection \<open>Compaction, clearing, provider switch, context refresh\<close>

text \<open>\<^verbatim>\<open>Array.prototype.slice(start, end)\<close> with its treatment of negative and large indices.\<close>

definition slice :: "'a list \<Rightarrow> int \<Rightarrow> int \<Rightarrow> 'a list" where
  "slice xs start stop =
     (let n = int (length xs);
          s = (if start < 0 then max (n + start) 0 else min start n);
          e = (if stop < 0 then max (n + stop) 0 else min stop n)
      in take (nat (e - s)) (drop (nat s) xs))"

definition roleName :: "role \<Rightarrow> string" where
  "roleName r = (case r of System \<Rightarrow> ''system'' | User \<Rightarrow> ''user''
                  | Assistant \<Rightarrow> ''assistant'' | Tool \<Rightarrow> ''tool'')"

definition summaryLine :: "message \<Rightarrow> string" where
  "summaryLine m =
     roleName (role m) @ '': '' @
     (case content m of Text t \<Rightarrow> slice t 0 200 | Complex \<Rightarrow> ''[complex content]'')"

text \<open>Reading \<^verbatim>\<open>m.role\<close> of an \<^verbatim>\<open>undefined\<close> slot throws; the lines exist when no slot is.\<close>

fun summaryLines :: "slot list \<Rightarrow> string list option" where
  "summaryLines [] = Some []"
| "summaryLines (None # ms) = None"
| "summaryLines (Some m # ms) = map_option (\<lambda>ls. summaryLine m # ls) (summaryLines ms)"

definition summaryMessage :: "string list \<Rightarrow> slot" where
  "summaryMessage ls =
     Some \<lparr>role = System,
           content = Text (''[Previous conversation summary]'' @ nl @ join nl ls @ nl @ ''[End summary]'')\<rparr>"

definition undefinedRole :: js_error where
  "undefinedRole = TypeError (''Cannot read properties of undefined (reading '' @ [CHR 0x27] @ ''role'' @ [CHR 0x27] @ '')'')"

definition compact :: "Agent \<Rightarrow> (js_error + unit) \<times> Agent" where
  "compact ag =
     (if length (messages ag) \<le> 4 then (Inr (), ag)
      else
        (let systemSlot = messages ag ! 0;
             recentMessages = slice (messages ag) (- 4) (int (length (messages ag)));
             oldMessages = slice (messages ag) 1 (- 4)
         in if length oldMessages = 0 then (Inr (), ag)
            else (case summaryLines oldMessages of
                    None \<Rightarrow> (Inl undefinedRole, ag)
                  | Some ls \<Rightarrow>
                      (Inr (), ag\<lparr>messages := [systemSlot, summaryMessage ls] @ recentMessages\<rparr>))))"

text \<open>\<^verbatim>\<open>clear()\<close>: index 0 of an empty array reads \<^verbatim>\<open>undefined\<close>.\<close>

definition clear :: "nat \<Rightarrow> Agent \<Rightarrow> Agent" where
  "clear now ag =
     ag\<lparr>messages := [case messages ag of [] \<Rightarrow> None | m # rest \<Rightarrow> m],
        session := (session ag)\<lparr>stats := createInitialStats now\<rparr>\<rparr>"

text \<open>
  \<^verbatim>\<open>switchProvider(providerName, modelId?)\<close>; \<open>created\<close> is the outcome of \<^verbatim>\<open>createProvider\<close>.
  An empty \<open>modelId\<close> is falsy.
\<close>

definition switchProvider ::
  "js_error + ProviderInstance \<Rightarrow> string \<Rightarrow> string option \<Rightarrow> Agent \<Rightarrow> (js_error + unit) \<times> Agent" where
  "switchProvider created providerName modelId ag =
     (case created of
        Inl err \<Rightarrow> (Inl err, ag)
      | Inr p \<Rightarrow>
          (let cfg1 = (config ag)\<lparr>cfg_provider := providerName\<rparr>;
               cfg2 = (case modelId of
                         None \<Rightarrow> cfg1
                       | Some m \<Rightarrow> if m = [] then cfg1 else cfg1\<lparr>cfg_model := m\<rparr>)
           in (Inr (), ag\<lparr>provider := Some p, config := cfg2\<rparr>)))"

text \<open>\<^verbatim>\<open>refreshContext()\<close>; \<open>loaded\<close> is what \<^verbatim>\<open>loadContextFiles\<close> finds on disk.\<close>

definition refreshContext :: "env \<Rightarrow> LoadedContextFile list \<Rightarrow> Agent \<Rightarrow> (js_error + LoadedContextFile list) \<times> Agent" where
  "refreshContext e loaded ag =
     (let ag1 = ag\<lparr>contextFiles := loaded\<rparr> in
      case messages ag1 of
        [] \<Rightarrow> (Inr loaded, ag1)
      | None # rest \<Rightarrow> (Inl undefinedRole, ag1)
      | Some m # rest \<Rightarrow>
          if role m = System
          then (Inr loaded, ag1\<lparr>messages := systemMessage e (config ag1) loaded (workspaceDir ag1) # rest\<rparr>)
          else (Inr loaded, ag1))"

subsection \<open>Sequences of operations\<close>

text \<open>A call of one public method of the agent, with everything it draws from outside.\<close>

datatype operation =
    Initialize env "js_error + ProviderInstance"
  | Chat "stream_request \<Rightarrow> stream_response" string
  | SaveCheckpoint "string option" string nat
  | RestoreCheckpoint string
  | Compact
  | Clear nat
  | SwitchProvider "js_error + ProviderInstance" string "string option"
  | RefreshContext env "LoadedContextFile list"

fun applyOperation :: "registry \<Rightarrow> operation \<Rightarrow> Agent \<Rightarrow> Agent" where
  "applyOperation reg (Initialize e created) ag = snd (initialize e created ag)"
| "applyOperation reg (Chat streamText userMessage) ag = snd (chat reg streamText userMessage ag)"
| "applyOperation reg (SaveCheckpoint tag cid now) ag = snd (saveCheckpoint tag cid now ag)"
| "applyOperation reg (RestoreCheckpoint idOrTag) ag = snd (restoreCheckpoint idOrTag ag)"
| "applyOperation reg Compact ag = snd (compact ag)"
| "applyOperation reg (Clear now) ag = clear now ag"
| "applyOperation reg (SwitchProvider created providerName modelId) ag =
     snd (switchProvider created providerName modelId ag)"
| "applyOperation reg (RefreshContext e loaded) ag = snd (refreshContext e loaded ag)"

fun run :: "registry \<Rightarrow> operation list \<Rightarrow> Agent \<Rightarrow> Agent" where
  "run reg [] ag = ag"
| "run reg (x # xs) ag = run reg xs (applyOperation reg x ag)"

text \<open>Successive \<^verbatim>\<open>saveCheckpoint\<close> calls, each with its tag, fresh identifier and clock.\<close>

fun saveCheckpoints :: "(string option \<times> string \<times> nat) list \<Rightarrow> Agent \<Rightarrow> Agent" where
  "saveCheckpoints [] ag = ag"
| "saveCheckpoints ((tag, cid, now) # calls) ag = saveCheckpoints calls (snd (saveCheckpoint tag cid now ag))"

text \<open>
  The operations that do not assign to index 0 of the conversation: \<^verbatim>\<open>chat\<close> appends,
  \<^verbatim>\<open>compact\<close> and \<^verbatim>\<open>clear\<close> rebuild the array around the element they read at index 0,
  \<^verbatim>\<open>saveCheckpoint\<close> and \<^verbatim>\<open>switchProvider\<close> leave the array alone.
\<close>

fun keepsIndex0 :: "operation \<Rightarrow> bool" where
  "keepsIndex0 (Chat streamText userMessage) = True"
| "keepsIndex0 Compact = True"
| "keepsIndex0 (Clear now) = True"
| "keepsIndex0 (SaveCheckpoint tag cid now) = True"
| "keepsIndex0 (SwitchProvider created providerName modelId) = True"
| "keepsIndex0 x = False"

text \<open>Index 0 of a message array exists and holds a message of role \<open>system\<close>.\<close>

fun systemFirst :: "slot list \<Rightarrow> bool" where
  "systemFirst (Some m # ms) = (role m = System)"
| "systemFirst ms = False"

text \<open>Index 0 holds a message built by \<^verbatim>\<open>buildSystemPrompt\<close>.\<close>

definition promptFirst :: "slot list \<Rightarrow> bool" where
  "promptFirst ms = (\<exists>e cfg files dir rest. ms = systemMessage e cfg files dir # rest)"

text \<open>The checkpoint \<^verbatim>\<open>find\<close> selects: its id or its tag equals the key.\<close>

definition matches :: "string \<Rightarrow> SessionCheckpoint \<Rightarrow> bool" where
  "matches idOrTag c = (cp_id c = idOrTag \<or> cp_tag c = Some idOrTag)"

text \<open>What the loop of \<^verbatim>\<open>chat\<close> gathers from a run of stream parts.\<close>

fun deltaText :: "part list \<Rightarrow> string" where
  "deltaText [] = []"
| "deltaText (TextDelta d # ps) = d @ deltaText ps"
| "deltaText (p # ps) = deltaText ps"

fun recordedCalls :: "part list \<Rightarrow> tool_call list" where
  "recordedCalls [] = []"
| "recordedCalls (ToolResultPart toolName a r # ps) =
     \<lparr>tc_name = toolName, tc_args = a,
      tc_result = \<lparr>tr_success = True, tr_output = payloadText r, tr_error = None\<rparr>\<rparr> # recordedCalls ps"
| "recordedCalls (p # ps) = recordedCalls ps"

fun announcedCalls :: "part list \<Rightarrow> nat" where
  "announcedCalls [] = 0"
| "announcedCalls (ToolCallPart toolName a # ps) = Suc (announcedCalls ps)"
| "announcedCalls (p # ps) = announcedCalls ps"

subsection \<open>Sample data\<close>

text \<open>The argument objects \<^verbatim>\<open>{}\<close> and \<^verbatim>\<open>{"path":"x"}\<close>.\<close>

definition noArgs :: args where
  "noArgs = \<lparr>args_json = ''{}'', args_thought = ''undefined''\<rparr>"

definition pathArgs :: args where
  "pathArgs =
     \<lparr>args_json = ''{'' @ [CHR 0x22] @ ''path'' @ [CHR 0x22] @ '':'' @ [CHR 0x22] @ ''x'' @ [CHR 0x22] @ ''}'',
      args_thought = ''undefined''\<rparr>"

definition okExecutor :: "string \<Rightarrow> args \<Rightarrow> js_error + ToolResult" where
  "okExecutor out a = Inr \<lparr>tr_success = True, tr_output = Some out, tr_error = None\<rparr>"

definition sampleRegistry :: registry where
  "sampleRegistry =
     initializeBuiltInTools
       [(''read_file'', ''Read a file'', okExecutor ''contents''),
        (''list_directory'', ''List a directory'', okExecutor ''a.txt''),
        (''delete_file'', ''Delete a file'', okExecutor ''deleted'')]
       [(''shell'', ''Run a command'', okExecutor ''ran'')]
       [(''web_search'', ''Search the web'', okExecutor ''hits'')]
       []"

definition sampleContext ::
  "ApprovalPolicy \<Rightarrow> (ApprovalRequest \<Rightarrow> js_error + bool) option \<Rightarrow> ToolExecutionContext" where
  "sampleContext policy approver =
     \<lparr>ctx_sandbox = ''workspace-write'', ctx_workspaceDir = ''/work'',
      ctx_approvalPolicy = policy, ctx_onApprovalRequest = approver\<rparr>"

definition sampleConfig :: "int option \<Rightarrow> OmniConfig" where
  "sampleConfig limit =
     \<lparr>cfg_provider = ''openai'', cfg_model = ''gpt-4o'', cfg_sandbox_mode = ''workspace-write'',
      cfg_approvalPolicy = OnRequest, maxCheckpoints = limit\<rparr>"

definition sampleEnv :: env where
  "sampleEnv = \<lparr>platform = ''linux'', formatContextForPrompt = (\<lambda>files. concat (map cf_content files))\<rparr>"

definition sampleProvider :: ProviderInstance where
  "sampleProvider = \<lparr>pi_name = ''openai'', pi_model = ''gpt-4o''\<rparr>"

text \<open>A freshly constructed agent, and the same agent after a successful \<^verbatim>\<open>initialize\<close>.\<close>

definition freshAgent :: "int option \<Rightarrow> (ApprovalRequest \<Rightarrow> js_error + bool) option \<Rightarrow> Agent" where
  "freshAgent limit approver =
     newAgent \<lparr>opt_config = sampleConfig limit, opt_workspaceDir = ''/work'',
               opt_provider = None, opt_onApprovalRequest = approver\<rparr> ''session-1'' 0 []"

definition readyAgent :: "int option \<Rightarrow> (ApprovalRequest \<Rightarrow> js_error + bool) option \<Rightarrow> Agent" where
  "readyAgent limit approver = snd (initialize sampleEnv (Inr sampleProvider) (freshAgent limit approver))"

definition sampleUsage :: Usage where
  "sampleUsage = \<lparr>u_promptTokens = 100, u_completionTokens = 20, u_totalTokens = 120\<rparr>"

text \<open>
  A scripted connector: for each call the model requests, in order, it announces the call,
  runs the \<^verbatim>\<open>execute\<close> wrapper of the tool definition it was given and reports what came
  back; it then resolves the usage. It pays no attention to \<^verbatim>\<open>maxSteps\<close>.
\<close>

definition runRequested :: "tool_definition list \<Rightarrow> string \<times> args \<Rightarrow> part list" where
  "runRequested tools call =
     (case call of (toolName, a) \<Rightarrow>
        (case map_of tools toolName of
           None \<Rightarrow> [ToolCallPart toolName a]
         | Some (description, wrapper) \<Rightarrow>
             (case fst (wrapper a ''request-1'' 0) of
                Inl e \<Rightarrow> [ToolCallPart toolName a]
              | Inr None \<Rightarrow> [ToolCallPart toolName a, ToolResultPart toolName a UndefinedResult]
              | Inr (Some t) \<Rightarrow> [ToolCallPart toolName a, ToolResultPart toolName a (StringResult t)])))"

definition scriptedModel :: "(string \<times> args) list \<Rightarrow> string \<Rightarrow> stream_request \<Rightarrow> stream_response" where
  "scriptedModel calls answer rq =
     (concat (map (runRequested (rq_tools rq)) calls) @ [TextDelta answer], Inr sampleUsage)"

text \<open>
  A scripted connector that honours \<^verbatim>\<open>maxSteps\<close>: each requested call is one step and the
  closing answer is a step of its own; when the requested calls use up the steps, the
  stream ends after the last permitted call.
\<close>

definition steppedModel :: "(string \<times> args) list \<Rightarrow> string \<Rightarrow> stream_request \<Rightarrow> stream_response" where
  "steppedModel calls answer rq =
     (if length calls < rq_maxSteps rq
      then (concat (map (runRequested (rq_tools rq)) calls) @ [TextDelta answer], Inr sampleUsage)
      else (concat (map (runRequested (rq_tools rq)) (take (rq_maxSteps rq) calls)), Inr sampleUsage))"

text \<open>A connector whose stream breaks after the first text delta.\<close>

definition droppedConnection :: "stream_request \<Rightarrow> stream_response" where
  "droppedConnection rq = ([TextDelta ''Let me ''], Inl (Error ''socket hang up''))"

text \<open>An approver that refuses every request, and the result \<^verbatim>\<open>executeTool\<close> returns then.\<close>

definition denyAll :: "ApprovalRequest \<Rightarrow> js_error + bool" where
  "denyAll request = Inr False"

definition deniedResult :: ToolResult where
  "deniedResult =
     \<lparr>tr_success = False, tr_output = None, tr_error = Some ''Operation was not approved by user''\<rparr>"

definition fifteenCalls :: "(string \<times> args) list" where
  "fifteenCalls = replicate 15 (''think'', noArgs)"

definition sampleOptions :: AgentOptions where
  "sampleOptions =
     \<lparr>opt_config = sampleConfig None, opt_workspaceDir = ''/work'',
      opt_provider = None, opt_onApprovalRequest = None\<rparr>"

definition sampleSession :: "operation list" where
  "sampleSession =
     [Chat (scriptedModel [] ''hello'') ''hi'',
      SaveCheckpoint (Some ''start'') ''id-1'' 1,
      Chat droppedConnection ''more'',
      Clear 2,
      RestoreCheckpoint ''start'',
      Compact,
      RefreshContext sampleEnv []]"

text \<open>
  An initialised agent that saves a checkpoint and then refreshes its context, finding a
  context file on disk.
\<close>

definition refreshedAfterSave :: Agent where
  "refreshedAfterSave =
     run sampleRegistry
       [SaveCheckpoint None ''id-1'' 1,
        RefreshContext sampleEnv
          [\<lparr>cf_path = ''/work/OMNI.md'', cf_content = ''Use tabs.'', cf_type = ''project''\<rparr>]]
       (readyAgent None None)"

definition twelveSaves :: "(string option \<times> string \<times> nat) list" where
  "twelveSaves = map (\<lambda>n. (None, ''checkpoint-'' @ replicate n CHR ''i'', n)) [1..<13]"

text \<open>Conversations of five and of seven messages.\<close>

definition fiveMessages :: Agent where
  "fiveMessages =
     run sampleRegistry
       [Chat (scriptedModel [] ''hello'') ''hi'', Chat (scriptedModel [] ''fine'') ''how are you'']
       (readyAgent None None)"

definition sevenMessages :: Agent where
  "sevenMessages =
     run sampleRegistry
       [Chat (scriptedModel [] ''hello'') ''hi'',
        Chat (scriptedModel [] ''fine'') ''how are you'',
        Chat (scriptedModel [] ''bye'') ''goodbye'']
       (readyAgent None None)"

text \<open>
  A list that is not fresh: the first checkpoint is saved under a tag, and the second, saved
  one exchange later, has that same string as its identifier.
\<close>

definition taggedThenSaved :: Agent where
  "taggedThenSaved =
     run sampleRegistry
       [SaveCheckpoint (Some ''4f9c2d1e-8a7b-4c3d-9e2f-1a2b3c4d5e6f'') ''0b1c2d3e-4f5a-4b6c-8d7e-9f0a1b2c3d4e'' 1,
        Chat (scriptedModel [] ''hello'') ''hi'',
        SaveCheckpoint None ''4f9c2d1e-8a7b-4c3d-9e2f-1a2b3c4d5e6f'' 2]
       (readyAgent None None)"

text \<open>
  The lookup as the specification words it, for comparison with \<^verbatim>\<open>find\<close> in
  \<open>restoreCheckpoint\<close>: search the list by id; only when no id matches, search it by tag.
\<close>

definition lookupIdThenTag :: "string \<Rightarrow> SessionCheckpoint list \<Rightarrow> SessionCheckpoint option" where
  "lookupIdThenTag k cs =
     (case find (\<lambda>c. cp_id c = k) cs of
        Some c \<Rightarrow> Some c
      | None \<Rightarrow> find (\<lambda>c. cp_tag c = Some k) cs)"

text \<open>
  Identifiers are drawn fresh by \<^verbatim>\<open>uuidv4()\<close> at each save: no checkpoint carries as its tag
  the identifier of a checkpoint saved after it.
\<close>

fun freshIds :: "SessionCheckpoint list \<Rightarrow> bool" where
  "freshIds [] = True"
| "freshIds (c # cs) = (list_all (\<lambda>d. cp_tag c \<noteq> Some (cp_id d)) cs \<and> freshIds cs)"

text \<open>A tagged checkpoint and, one exchange later, an untagged one.\<close>

definition twoCheckpoints :: Agent where
  "twoCheckpoints =
     run sampleRegistry
       [SaveCheckpoint (Some ''start'') ''0b1c2d3e-4f5a-4b6c-8d7e-9f0a1b2c3d4e'' 1,
        Chat (scriptedModel [] ''hello'') ''hi'',
        SaveCheckpoint None ''4f9c2d1e-8a7b-4c3d-9e2f-1a2b3c4d5e6f'' 2]
       (readyAgent None None)"

text \<open>The live conversation and every stored snapshot start with a built system prompt.\<close>

definition soundAgent :: "Agent \<Rightarrow> bool" where
  "soundAgent ag =
     (promptFirst (messages ag) \<and> (\<forall>c\<in>set (checkpoints (session ag)). promptFirst (cp_messages c)))"

section \<open>Properties\<close>

subsection \<open>Sample data, evaluated\<close>

lemma getTool_sample:
  "getTool sampleRegistry ''shell'' =
     Some \<lparr>tool_name = ''shell'', tool_category = Shell, tool_description = ''Run a command'',
           requiresApproval = True, execute = okExecutor ''ran''\<rparr>"
  "getTool sampleRegistry ''list_directory'' =
     Some \<lparr>tool_name = ''list_directory'', tool_category = File, tool_description = ''List a directory'',
           requiresApproval = False, execute = okExecutor ''a.txt''\<rparr>"
  "getTool sampleRegistry ''delete_file'' =
     Some \<lparr>tool_name = ''delete_file'', tool_category = File, tool_description = ''Delete a file'',
           requiresApproval = True, execute = okExecutor ''deleted''\<rparr>"
  "getTool sampleRegistry ''think'' = Some thinkTool"
  by (simp_all add: sampleRegistry_def initializeBuiltInTools_def thinkTool_def getTool_def)

lemma readyAgent_fields:
  "provider (readyAgent limit approver) = Some sampleProvider"
  "config (readyAgent limit approver) = sampleConfig limit"
  "workspaceDir (readyAgent limit approver) = ''/work''"
  "onApprovalRequest (readyAgent limit approver) = approver"
  "messages (readyAgent limit approver) = [systemMessage sampleEnv (sampleConfig limit) [] ''/work'']"
  "checkpoints (session (readyAgent limit approver)) = []"
  "stats (session (readyAgent limit approver)) = createInitialStats 0"
  by (simp_all add: readyAgent_def freshAgent_def newAgent_def initialize_def)

lemma map_of_tools:
  "map_of (buildToolDefinitions sampleRegistry ag) ''think'' =
     Some (tool_description thinkTool, definitionExecute sampleRegistry ag ''think'')"
  "map_of (buildToolDefinitions sampleRegistry ag) ''delete_file'' =
     Some (''Delete a file'', definitionExecute sampleRegistry ag ''delete_file'')"
  by (simp_all add: buildToolDefinitions_def getAllTools_def sampleRegistry_def
        initializeBuiltInTools_def thinkTool_def)

lemma think_executes:
  "definitionExecute sampleRegistry ag ''think'' a rid now =
     (Inr (Some (''Thought: '' @ args_thought a)), [Executed ''think'' a])"
  by (simp add: definitionExecute_def executeTool_def getTool_sample needsApproval_def
        thinkTool_def runExecutor_def)

lemma runRequested_think:
  "runRequested (buildToolDefinitions sampleRegistry ag) (''think'', a) =
     [ToolCallPart ''think'' a, ToolResultPart ''think'' a (StringResult (''Thought: '' @ args_thought a))]"
  by (simp add: runRequested_def map_of_tools think_executes)

lemma delete_denied:
  assumes "onApprovalRequest ag = Some denyAll"
      and "cfg_approvalPolicy (config ag) = OnRequest"
  shows "fst (definitionExecute sampleRegistry ag ''delete_file'' a rid now) =
           Inr (Some ''Error: Operation was not approved by user'')"
  using assms
  by (simp add: definitionExecute_def executeTool_def getTool_sample needsApproval_def
        toolContext_def denyAll_def Let_def)

lemma chat_scripted_plain:
  assumes "provider ag = Some p"
  shows "chat sampleRegistry (scriptedModel [] answer) userMessage ag =
     (Inr \<lparr>resp_content = answer, resp_toolCalls = [], resp_usage = sampleUsage\<rparr>,
      ag\<lparr>session := (session ag)
            \<lparr>stats := (stats (session ag))
               \<lparr>promptTokens := promptTokens (stats (session ag)) + 100,
                completionTokens := completionTokens (stats (session ag)) + 20,
                totalTokens := totalTokens (stats (session ag)) + 120\<rparr>\<rparr>,
         messages := messages ag @ [Some \<lparr>role = User, content = Text userMessage\<rparr>,
                                    Some \<lparr>role = Assistant, content = Text answer\<rparr>]\<rparr>)"
  using assms by (simp add: chat_def Let_def scriptedModel_def processPart_def sampleUsage_def)

lemma fiveMessages_messages:
  "messages fiveMessages =
     [systemMessage sampleEnv (sampleConfig None) [] ''/work'',
      Some \<lparr>role = User, content = Text ''hi''\<rparr>,
      Some \<lparr>role = Assistant, content = Text ''hello''\<rparr>,
      Some \<lparr>role = User, content = Text ''how are you''\<rparr>,
      Some \<lparr>role = Assistant, content = Text ''fine''\<rparr>]"
  by (simp add: fiveMessages_def chat_scripted_plain readyAgent_fields)

lemma sevenMessages_messages:
  "messages sevenMessages =
     [systemMessage sampleEnv (sampleConfig None) [] ''/work'',
      Some \<lparr>role = User, content = Text ''hi''\<rparr>,
      Some \<lparr>role = Assistant, content = Text ''hello''\<rparr>,
      Some \<lparr>role = User, content = Text ''how are you''\<rparr>,
      Some \<lparr>role = Assistant, content = Text ''fine''\<rparr>,
      Some \<lparr>role = User, content = Text ''goodbye''\<rparr>,
      Some \<lparr>role = Assistant, content = Text ''bye''\<rparr>]"
  by (simp add: sevenMessages_def chat_scripted_plain readyAgent_fields)

lemma twoCheckpoints_checkpoints:
  "checkpoints (session twoCheckpoints) =
     [\<lparr>cp_id = ''0b1c2d3e-4f5a-4b6c-8d7e-9f0a1b2c3d4e'', cp_tag = Some ''start'',
       cp_timestamp = 1,
       cp_messages = [systemMessage sampleEnv (sampleConfig None) [] ''/work''],
       cp_context = \<lparr>cc_provider = ''openai'', cc_model = ''gpt-4o'', cc_workingDir = ''/work''\<rparr>,
       cp_stats = createInitialStats 0\<rparr>,
      \<lparr>cp_id = ''4f9c2d1e-8a7b-4c3d-9e2f-1a2b3c4d5e6f'', cp_tag = None,
       cp_timestamp = 2,
       cp_messages = [systemMessage sampleEnv (sampleConfig None) [] ''/work'',
                      Some \<lparr>role = User, content = Text ''hi''\<rparr>,
                      Some \<lparr>role = Assistant, content = Text ''hello''\<rparr>],
       cp_context = \<lparr>cc_provider = ''openai'', cc_model = ''gpt-4o'', cc_workingDir = ''/work''\<rparr>,
       cp_stats = (createInitialStats 0)\<lparr>promptTokens := 100, completionTokens := 20, totalTokens := 120\<rparr>\<rparr>]"
  by (simp add: twoCheckpoints_def saveCheckpoint_def Let_def chat_scripted_plain readyAgent_fields
        sampleConfig_def checkpointLimit_def createInitialStats_def)

lemma taggedThenSaved_checkpoints:
  "checkpoints (session taggedThenSaved) =
     [\<lparr>cp_id = ''0b1c2d3e-4f5a-4b6c-8d7e-9f0a1b2c3d4e'',
       cp_tag = Some ''4f9c2d1e-8a7b-4c3d-9e2f-1a2b3c4d5e6f'',
       cp_timestamp = 1,
       cp_messages = [systemMessage sampleEnv (sampleConfig None) [] ''/work''],
       cp_context = \<lparr>cc_provider = ''openai'', cc_model = ''gpt-4o'', cc_workingDir = ''/work''\<rparr>,
       cp_stats = createInitialStats 0\<rparr>,
      \<lparr>cp_id = ''4f9c2d1e-8a7b-4c3d-9e2f-1a2b3c4d5e6f'', cp_tag = None,
       cp_timestamp = 2,
       cp_messages = [systemMessage sampleEnv (sampleConfig None) [] ''/work'',
                      Some \<lparr>role = User, content = Text ''hi''\<rparr>,
                      Some \<lparr>role = Assistant, content = Text ''hello''\<rparr>],
       cp_context = \<lparr>cc_provider = ''openai'', cc_model = ''gpt-4o'', cc_workingDir = ''/work''\<rparr>,
       cp_stats = (createInitialStats 0)\<lparr>promptTokens := 100, completionTokens := 20, totalTokens := 120\<rparr>\<rparr>]"
  by (simp add: taggedThenSaved_def saveCheckpoint_def Let_def chat_scripted_plain readyAgent_fields
        sampleConfig_def checkpointLimit_def createInitialStats_def)

subsection \<open>The approval gate\<close>

lemma runExecutor_trace: "snd (runExecutor tool toolName a earlier) = earlier @ [Executed toolName a]"
  by (simp add: runExecutor_def split: sum.splits)

text \<open>
  Claim C9. Whenever the tool's \<open>requiresApproval\<close> is false (under every policy), and
  whenever the policy is \<open>never\<close> (for every tool and category), \<open>executeTool\<close> goes straight
  to the executor: the only effect is the one call of the executor, so no approval prompt
  fires, and the result is the executor's.
\<close>

theorem no_prompt_when_not_required:
  assumes "getTool reg toolName = Some tool"
      and "\<not> requiresApproval tool \<or> ctx_approvalPolicy context = Never"
  shows "executeTool reg toolName a context rid now = runExecutor tool toolName a []
       \<and> snd (executeTool reg toolName a context rid now) = [Executed toolName a]"
  using assms by (auto simp: executeTool_def needsApproval_def runExecutor_trace)

text \<open>
  \<open>list_directory\<close> needs no approval: under policy \<open>on-request\<close>, with an approver that
  would refuse, it runs unprompted.
\<close>

theorem no_prompt_when_not_required_witness:
  "getTool sampleRegistry ''list_directory'' =
     Some \<lparr>tool_name = ''list_directory'', tool_category = File, tool_description = ''List a directory'',
           requiresApproval = False, execute = okExecutor ''a.txt''\<rparr> \<and>
   executeTool sampleRegistry ''list_directory'' noArgs (sampleContext OnRequest (Some denyAll)) ''request-1'' 0 =
     (Inr \<lparr>tr_success = True, tr_output = Some ''a.txt'', tr_error = None\<rparr>,
      [Executed ''list_directory'' noArgs])"
  using no_prompt_when_not_required
          [of sampleRegistry "''list_directory''" _ "sampleContext OnRequest (Some denyAll)"
              noArgs "''request-1''" 0, OF getTool_sample(2)]
  by (simp add: getTool_sample runExecutor_def okExecutor_def)

text \<open>
  Claim C1, amended. For a registered tool with \<open>requiresApproval = true\<close> under policy
  \<open>untrusted\<close> or \<open>on-request\<close>: when an approver is configured it is prompted first; the
  executor runs, after the prompt, only when the approver answers true; when it answers
  false the result is the failed result "Operation was not approved by user" and the
  executor is never called; when the approver itself rejects, so does \<open>executeTool\<close>.
  When no approver is configured, the executor runs without any prompt.
\<close>

theorem approval_gate_prompts_or_runs:
  assumes "getTool reg toolName = Some tool"
      and "requiresApproval tool"
      and "ctx_approvalPolicy context = Untrusted \<or> ctx_approvalPolicy context = OnRequest"
  shows "(ctx_onApprovalRequest context = None \<longrightarrow>
            executeTool reg toolName a context rid now = runExecutor tool toolName a []
          \<and> snd (executeTool reg toolName a context rid now) = [Executed toolName a])
       \<and> (\<forall>approver. ctx_onApprovalRequest context = Some approver \<longrightarrow>
            (approver (approvalRequest tool toolName a rid now) = Inr True \<longrightarrow>
               executeTool reg toolName a context rid now =
                 runExecutor tool toolName a [Prompted (approvalRequest tool toolName a rid now)]
             \<and> snd (executeTool reg toolName a context rid now) =
                 [Prompted (approvalRequest tool toolName a rid now), Executed toolName a])
          \<and> (approver (approvalRequest tool toolName a rid now) = Inr False \<longrightarrow>
               executeTool reg toolName a context rid now =
                 (Inr deniedResult, [Prompted (approvalRequest tool toolName a rid now)]))
          \<and> (\<forall>e. approver (approvalRequest tool toolName a rid now) = Inl e \<longrightarrow>
               executeTool reg toolName a context rid now =
                 (Inl e, [Prompted (approvalRequest tool toolName a rid now)])))"
  using assms
  by (auto simp: executeTool_def needsApproval_def runExecutor_trace deniedResult_def Let_def)

text \<open>\<open>shell\<close> under \<open>on-request\<close> with a refusing approver: one prompt, no execution.\<close>

theorem approval_gate_prompts_or_runs_witness:
  "getTool sampleRegistry ''shell'' =
     Some \<lparr>tool_name = ''shell'', tool_category = Shell, tool_description = ''Run a command'',
           requiresApproval = True, execute = okExecutor ''ran''\<rparr> \<and>
   ctx_approvalPolicy (sampleContext OnRequest (Some denyAll)) = OnRequest \<and>
   executeTool sampleRegistry ''shell'' noArgs (sampleContext OnRequest (Some denyAll)) ''request-1'' 0 =
     (Inr deniedResult,
      [Prompted \<lparr>req_id = ''request-1'', req_type = ShellCommand, req_description = ''shell: {}'',
                 req_details = noArgs, req_timestamp = 0\<rparr>])"
  using approval_gate_prompts_or_runs
          [of sampleRegistry "''shell''" _ "sampleContext OnRequest (Some denyAll)"
              noArgs "''request-1''" 0, OF getTool_sample(1)]
  by (simp add: getTool_sample sampleContext_def denyAll_def approvalRequest_def noArgs_def)

text \<open>
  Claim C1 as worded (no approver configured: the invocation is denied and the executor is
  not invoked) fails: \<open>shell\<close> under \<open>on-request\<close> with no approver is executed and succeeds.
\<close>

theorem no_approver_runs_executor:
  "executeTool sampleRegistry ''shell'' noArgs (sampleContext OnRequest None) ''request-1'' 0 =
     (Inr \<lparr>tr_success = True, tr_output = Some ''ran'', tr_error = None\<rparr>, [Executed ''shell'' noArgs])"
  by (simp add: executeTool_def getTool_sample needsApproval_def sampleContext_def
        runExecutor_def okExecutor_def)

subsection \<open>\<^verbatim>\<open>chat\<close>\<close>

text \<open>
  Claim C10. On an agent with no provider, \<open>chat\<close> rejects with "Agent not initialized.
  Call initialize() first." and the agent, its message list included, is exactly as before:
  no user message is recorded.
\<close>

theorem chat_uninitialized_rejected:
  assumes "provider ag = None"
  shows "chat reg streamText userMessage ag =
           (Inl (Error ''Agent not initialized. Call initialize() first.''), ag)"
  using assms by (simp add: chat_def)

theorem chat_uninitialized_rejected_witness:
  "provider (freshAgent None None) = None \<and>
   chat sampleRegistry droppedConnection ''hello'' (freshAgent None None) =
     (Inl (Error ''Agent not initialized. Call initialize() first.''), freshAgent None None)"
  using chat_uninitialized_rejected[of "freshAgent None None" sampleRegistry droppedConnection "''hello''"]
  by (simp add: freshAgent_def newAgent_def)

text \<open>
  Claim C3. When the connector fails during \<open>chat\<close> (the call, the stream after any number
  of parts, or the deferred usage), the call rejects with that very error and the
  conversation is the one before the call followed by the user message alone: no assistant
  message is appended.
\<close>

theorem connector_failure_keeps_user_message:
  assumes "provider ag = Some p"
      and "snd (streamText (chatRequest reg p
                 (ag\<lparr>messages := messages ag @ [Some \<lparr>role = User, content = Text userMessage\<rparr>]\<rparr>))) = Inl e"
  shows "fst (chat reg streamText userMessage ag) = Inl e
       \<and> messages (snd (chat reg streamText userMessage ag)) =
           messages ag @ [Some \<lparr>role = User, content = Text userMessage\<rparr>]"
  using assms by (simp add: chat_def Let_def split: prod.splits)

theorem connector_failure_keeps_user_message_witness:
  "provider (readyAgent None None) = Some sampleProvider \<and>
   fst (chat sampleRegistry droppedConnection ''hello'' (readyAgent None None)) = Inl (Error ''socket hang up'') \<and>
   messages (snd (chat sampleRegistry droppedConnection ''hello'' (readyAgent None None))) =
     messages (readyAgent None None) @ [Some \<lparr>role = User, content = Text ''hello''\<rparr>]"
  using connector_failure_keeps_user_message
          [of "readyAgent None None" sampleProvider droppedConnection sampleRegistry "''hello''"
              "Error ''socket hang up''"]
  by (simp add: readyAgent_fields droppedConnection_def)

text \<open>What the loop leaves in its accumulator after a run of parts.\<close>

lemma processStream_gathers:
  "\<exists>st'. processStream ps (c, calls, st) = (c @ deltaText ps, calls @ recordedCalls ps, st')
       \<and> toolCalls st' = toolCalls st + announcedCalls ps"
proof (induction ps arbitrary: c calls st)
  case Nil
  then show ?case by simp
next
  case (Cons p ps)
  show ?case
  proof (cases p)
    case (TextDelta d)
    with Cons.IH[of "c @ d" calls st] show ?thesis by (simp add: processPart_def)
  next
    case (ToolCallPart n a)
    have "toolCalls (updateToolStats n st) = toolCalls st + 1"
      by (simp add: updateToolStats_def Let_def)
    with Cons.IH[of c calls "updateToolStats n st"] ToolCallPart show ?thesis
      by (auto simp: processPart_def)
  next
    case (ToolResultPart n a r)
    with Cons.IH[of c "calls @ [\<lparr>tc_name = n, tc_args = a,
        tc_result = \<lparr>tr_success = True, tr_output = payloadText r, tr_error = None\<rparr>\<rparr>]" st]
    show ?thesis by (simp add: processPart_def)
  next
    case OtherPart
    with Cons.IH[of c calls st] show ?thesis by (simp add: processPart_def)
  qed
qed

lemma chat_resolved:
  assumes "provider ag = Some p"
      and "streamText (chatRequest reg p
             (ag\<lparr>messages := messages ag @ [Some \<lparr>role = User, content = Text userMessage\<rparr>]\<rparr>)) =
           (parts, Inr usage)"
  shows "fst (chat reg streamText userMessage ag) =
           Inr \<lparr>resp_content = deltaText parts, resp_toolCalls = recordedCalls parts, resp_usage = usage\<rparr>"
    and "toolCalls (stats (session (snd (chat reg streamText userMessage ag)))) =
           toolCalls (stats (session ag)) + announcedCalls parts"
    and "messages (snd (chat reg streamText userMessage ag)) =
           messages ag @ [Some \<lparr>role = User, content = Text userMessage\<rparr>,
                          Some \<lparr>role = Assistant, content = Text (deltaText parts)\<rparr>]"
proof -
  obtain st' where g: "processStream parts ([], [], stats (session ag)) =
                         (deltaText parts, recordedCalls parts, st')"
    and t: "toolCalls st' = toolCalls (stats (session ag)) + announcedCalls parts"
    using processStream_gathers[of parts "[]" "[]" "stats (session ag)"] by auto
  show "fst (chat reg streamText userMessage ag) =
          Inr \<lparr>resp_content = deltaText parts, resp_toolCalls = recordedCalls parts, resp_usage = usage\<rparr>"
    using assms g by (simp add: chat_def Let_def)
  show "toolCalls (stats (session (snd (chat reg streamText userMessage ag)))) =
          toolCalls (stats (session ag)) + announcedCalls parts"
    using assms g t by (simp add: chat_def Let_def)
  show "messages (snd (chat reg streamText userMessage ag)) =
          messages ag @ [Some \<lparr>role = User, content = Text userMessage\<rparr>,
                         Some \<lparr>role = Assistant, content = Text (deltaText parts)\<rparr>]"
    using assms g by (simp add: chat_def Let_def)
qed

text \<open>
  Claim C2, amended. \<open>chat\<close> hands the connector the fixed bound \<open>maxSteps = 10\<close> and keeps
  no counter of its own: when the stream ends normally it has consumed every part the
  connector delivered. The response holds the concatenated text deltas, one entry per
  tool-result part, in order, and the usage; the session's tool-call count has grown by the
  number of tool-call parts; the conversation has gained the user message and the
  assistant message. The response has no field by which it could be flagged step-limited.
\<close>

theorem chat_gathers_whole_stream:
  assumes "provider ag = Some p"
      and "streamText (chatRequest reg p
             (ag\<lparr>messages := messages ag @ [Some \<lparr>role = User, content = Text userMessage\<rparr>]\<rparr>)) =
           (parts, Inr usage)"
  shows "rq_maxSteps (chatRequest reg p
             (ag\<lparr>messages := messages ag @ [Some \<lparr>role = User, content = Text userMessage\<rparr>]\<rparr>)) = 10
       \<and> fst (chat reg streamText userMessage ag) =
           Inr \<lparr>resp_content = deltaText parts, resp_toolCalls = recordedCalls parts, resp_usage = usage\<rparr>
       \<and> toolCalls (stats (session (snd (chat reg streamText userMessage ag)))) =
           toolCalls (stats (session ag)) + announcedCalls parts
       \<and> messages (snd (chat reg streamText userMessage ag)) =
           messages ag @ [Some \<lparr>role = User, content = Text userMessage\<rparr>,
                          Some \<lparr>role = Assistant, content = Text (deltaText parts)\<rparr>]"
  using chat_resolved[of ag p streamText reg userMessage parts usage, OF assms]
  by (simp add: chatRequest_def)

text \<open>
  A model that asks for fifteen calls of \<open>think\<close>, one after the other, behind a connector
  that stops at the step bound it is given: ten calls are delivered and recorded, and the
  response is an ordinary one.
\<close>

theorem chat_gathers_whole_stream_witness:
  "provider (readyAgent None None) = Some sampleProvider \<and>
   fst (chat sampleRegistry (steppedModel fifteenCalls ''done'') ''go'' (readyAgent None None)) =
     Inr \<lparr>resp_content = [],
          resp_toolCalls = replicate 10 \<lparr>tc_name = ''think'', tc_args = noArgs,
                             tc_result = \<lparr>tr_success = True, tr_output = Some ''Thought: undefined'',
                                           tr_error = None\<rparr>\<rparr>,
          resp_usage = sampleUsage\<rparr>"
  using chat_gathers_whole_stream
          [of "readyAgent None None" sampleProvider "steppedModel fifteenCalls ''done''"
              sampleRegistry "''go''"
              "concat (replicate 10 [ToolCallPart ''think'' noArgs,
                 ToolResultPart ''think'' noArgs (StringResult ''Thought: undefined'')])" sampleUsage]
  by (simp add: readyAgent_fields steppedModel_def fifteenCalls_def chatRequest_def
        runRequested_think payloadText_def eval_nat_numeral noArgs_def)

text \<open>
  Claim C2 as worded (the loop of \<open>chat\<close> stops at the bound, so that fifteen sequential
  tool calls give exactly ten executed invocations) fails: behind a connector that does not
  stop by itself, a model that requests fifteen calls, each executed through the tool
  definition \<open>chat\<close> supplied, yields a normal response with fifteen recorded tool calls
  and a tool-call count of fifteen.
\<close>

theorem fifteen_calls_all_recorded:
  "isl (fst (chat sampleRegistry (scriptedModel fifteenCalls ''done'') ''go'' (readyAgent None None))) = False \<and>
   length (resp_toolCalls (projr (fst
     (chat sampleRegistry (scriptedModel fifteenCalls ''done'') ''go'' (readyAgent None None))))) = 15 \<and>
   toolCalls (stats (session (snd
     (chat sampleRegistry (scriptedModel fifteenCalls ''done'') ''go'' (readyAgent None None))))) = 15"
proof -
  let ?ag1 = "(readyAgent None None)
                \<lparr>messages := messages (readyAgent None None) @ [Some \<lparr>role = User, content = Text ''go''\<rparr>]\<rparr>"
  let ?parts = "concat (replicate 15 [ToolCallPart ''think'' noArgs,
                   ToolResultPart ''think'' noArgs (StringResult ''Thought: undefined'')]) @ [TextDelta ''done'']"
  have s: "scriptedModel fifteenCalls ''done'' (chatRequest sampleRegistry sampleProvider ?ag1) =
             (?parts, Inr sampleUsage)"
    by (simp add: scriptedModel_def fifteenCalls_def chatRequest_def runRequested_think noArgs_def)
  have r: "length (recordedCalls ?parts) = 15" by (simp add: eval_nat_numeral)
  have a: "announcedCalls ?parts = 15" by (simp add: eval_nat_numeral)
  have p: "provider (readyAgent None None) = Some sampleProvider" by (simp add: readyAgent_fields)
  from chat_resolved(1,2)
         [of "readyAgent None None" sampleProvider "scriptedModel fifteenCalls ''done''" sampleRegistry
             "''go''" ?parts sampleUsage, OF p s] r a
  show ?thesis by (simp add: readyAgent_fields createInitialStats_def)
qed

text \<open>
  Claim C4. The scenario: \<open>delete_file\<close> (\<open>requiresApproval = true\<close>) is requested
  under policy \<open>on-request\<close> with an approver that always refuses. \<open>chat\<close> resolves normally,
  as claimed. But \<open>executeTool\<close>'s failed result reaches \<open>chat\<close> only as the text
  "Error: Operation was not approved by user", and \<open>chat\<close> records every tool result with
  \<open>success = true\<close>: the recorded result has \<open>success = true\<close>, that text as its output, and no
  error; no tool-result message enters the conversation.
\<close>

theorem denied_tool_recorded_as_success:
  "chat sampleRegistry (scriptedModel [(''delete_file'', pathArgs)] ''I could not delete x.'')
       ''delete file x'' (readyAgent None (Some denyAll)) =
     (Inr \<lparr>resp_content = ''I could not delete x.'',
           resp_toolCalls = [\<lparr>tc_name = ''delete_file'', tc_args = pathArgs,
              tc_result = \<lparr>tr_success = True,
                            tr_output = Some ''Error: Operation was not approved by user'',
                            tr_error = None\<rparr>\<rparr>],
           resp_usage = sampleUsage\<rparr>,
      (readyAgent None (Some denyAll))
        \<lparr>session := (session (readyAgent None (Some denyAll)))
            \<lparr>stats := (createInitialStats 0)
               \<lparr>promptTokens := 100, completionTokens := 20, totalTokens := 120, toolCalls := 1\<rparr>\<rparr>,
         messages := messages (readyAgent None (Some denyAll)) @
            [Some \<lparr>role = User, content = Text ''delete file x''\<rparr>,
             Some \<lparr>role = Assistant, content = Text ''I could not delete x.''\<rparr>]\<rparr>)"
  by (simp add: chat_def readyAgent_fields Let_def scriptedModel_def chatRequest_def runRequested_def
        map_of_tools delete_denied sampleConfig_def processPart_def updateToolStats_def
        payloadText_def sampleUsage_def createInitialStats_def)

subsection \<open>The system message at index 0\<close>

lemma promptFirstI: "promptFirst (systemMessage e cfg files dir # rest)"
  unfolding promptFirst_def by blast

lemma promptFirstE:
  assumes "promptFirst ms"
  obtains e cfg files dir rest where "ms = systemMessage e cfg files dir # rest"
  using assms unfolding promptFirst_def by blast

lemma promptFirst_systemFirst: "promptFirst ms \<Longrightarrow> systemFirst ms"
  by (erule promptFirstE) (simp add: systemMessage_def)

lemma promptFirst_append: "promptFirst ms \<Longrightarrow> promptFirst (ms @ extra)"
  by (erule promptFirstE) (simp add: promptFirstI)

lemma promptFirst_keep_head: "promptFirst ms \<Longrightarrow> promptFirst (ms ! 0 # others)"
  by (erule promptFirstE) (simp add: promptFirstI)

lemma promptFirst_clear: "promptFirst ms \<Longrightarrow> promptFirst [case ms of [] \<Rightarrow> None | m # rest \<Rightarrow> m]"
  by (erule promptFirstE) (simp add: promptFirstI)

lemma chat_messages:
  "\<exists>extra. messages (snd (chat reg streamText userMessage ag)) = messages ag @ extra"
  by (auto simp: chat_def Let_def split: option.splits prod.splits sum.splits)

lemma chat_checkpoints:
  "checkpoints (session (snd (chat reg streamText userMessage ag))) = checkpoints (session ag)"
  by (auto simp: chat_def Let_def split: option.splits prod.splits sum.splits)

lemma set_tl_subset: "x \<in> set (tl xs) \<Longrightarrow> x \<in> set xs"
  by (cases xs) auto

lemma sound_initialize: "soundAgent ag \<Longrightarrow> soundAgent (snd (initialize e created ag))"
  by (auto simp: soundAgent_def initialize_def promptFirstI split: option.splits sum.splits)

lemma sound_chat: "soundAgent ag \<Longrightarrow> soundAgent (snd (chat reg streamText userMessage ag))"
  using chat_messages[of reg streamText userMessage ag] chat_checkpoints[of reg streamText userMessage ag]
  by (auto simp: soundAgent_def promptFirst_append)

lemma sound_save: "soundAgent ag \<Longrightarrow> soundAgent (snd (saveCheckpoint tag cid now ag))"
  by (auto simp: soundAgent_def saveCheckpoint_def Let_def dest!: set_tl_subset)

lemma sound_restore: "soundAgent ag \<Longrightarrow> soundAgent (snd (restoreCheckpoint idOrTag ag))"
  by (auto simp: soundAgent_def restoreCheckpoint_def find_Some_iff split: option.splits)

lemma sound_compact: "soundAgent ag \<Longrightarrow> soundAgent (snd (compact ag))"
  by (auto simp: soundAgent_def compact_def Let_def promptFirst_keep_head split: option.splits)

lemma sound_clear: "soundAgent ag \<Longrightarrow> soundAgent (clear now ag)"
  by (auto simp: soundAgent_def clear_def promptFirst_clear)

lemma sound_switch: "soundAgent ag \<Longrightarrow> soundAgent (snd (switchProvider created providerName modelId ag))"
  by (auto simp: soundAgent_def switchProvider_def Let_def split: option.splits sum.splits)

lemma sound_refresh: "soundAgent ag \<Longrightarrow> soundAgent (snd (refreshContext e loaded ag))"
  by (auto simp: soundAgent_def refreshContext_def Let_def promptFirstI
           split: option.splits sum.splits list.splits)

lemma sound_apply: "soundAgent ag \<Longrightarrow> soundAgent (applyOperation reg x ag)"
  by (cases x)
     (simp_all add: sound_initialize sound_chat sound_save sound_restore sound_compact
        sound_clear sound_switch sound_refresh)

lemma sound_run: "soundAgent ag \<Longrightarrow> soundAgent (run reg xs ag)"
  by (induction xs arbitrary: ag) (simp_all add: sound_apply)

lemma sound_after_initialize:
  assumes "fst (initialize e created (newAgent options sid now loaded)) = Inr ()"
  shows "soundAgent (snd (initialize e created (newAgent options sid now loaded)))"
  using assms
  by (auto simp: soundAgent_def initialize_def newAgent_def promptFirstI split: option.splits sum.splits)

lemma promptFirst_nonempty: "promptFirst ms \<Longrightarrow> ms \<noteq> []"
  by (erule promptFirstE) simp

lemma index0_kept:
  assumes "promptFirst (messages ag)" and "keepsIndex0 x"
  shows "messages (applyOperation reg x ag) ! 0 = messages ag ! 0"
proof (cases x)
  case (Chat streamText userMessage)
  obtain extra where "messages (snd (chat reg streamText userMessage ag)) = messages ag @ extra"
    using chat_messages by blast
  with promptFirst_nonempty[OF assms(1)] Chat show ?thesis by (simp add: nth_append)
next
  case Compact
  then show ?thesis by (simp add: compact_def Let_def split: option.splits)
next
  case (Clear now)
  with promptFirst_nonempty[OF assms(1)] show ?thesis by (simp add: clear_def split: list.splits)
next
  case (SaveCheckpoint tag cid now)
  then show ?thesis by (simp add: saveCheckpoint_def Let_def)
next
  case (SwitchProvider created providerName modelId)
  then show ?thesis by (simp add: switchProvider_def Let_def split: sum.splits option.splits)
qed (use assms in simp_all)

lemma refresh_sets_index0:
  assumes "promptFirst (messages ag)"
  shows "messages (snd (refreshContext e loaded ag)) ! 0 =
           systemMessage e (config ag) loaded (workspaceDir ag)"
  using assms
  by (elim promptFirstE) (simp add: refreshContext_def Let_def systemMessage_def)

lemma restore_failed_unchanged:
  "\<not> fst (restoreCheckpoint idOrTag ag) \<Longrightarrow> snd (restoreCheckpoint idOrTag ag) = ag"
  by (simp add: restoreCheckpoint_def split: option.splits)

lemma restore_takes_stored:
  assumes "fst (restoreCheckpoint idOrTag ag)"
  shows "\<exists>c\<in>set (checkpoints (session ag)).
           matches idOrTag c \<and> messages (snd (restoreCheckpoint idOrTag ag)) = cp_messages c"
proof (cases "find (\<lambda>c. cp_id c = idOrTag \<or> cp_tag c = Some idOrTag) (checkpoints (session ag))")
  case None
  with assms show ?thesis by (simp add: restoreCheckpoint_def)
next
  case (Some c)
  then have "c \<in> set (checkpoints (session ag))" "matches idOrTag c"
    by (auto simp: find_Some_iff matches_def)
  moreover from Some have "messages (snd (restoreCheckpoint idOrTag ag)) = cp_messages c"
    by (simp add: restoreCheckpoint_def)
  ultimately show ?thesis by blast
qed

text \<open>
  Claim C5, amended. Take a newly constructed agent on which \<open>initialize\<close> succeeded. After
  any sequence of \<open>chat\<close>, \<open>compact\<close>, \<open>clear\<close>, \<open>restoreCheckpoint\<close> and \<open>refreshContext\<close> calls
  (and of \<open>saveCheckpoint\<close>, \<open>switchProvider\<close> and repeated \<open>initialize\<close> calls as well, in any
  order and with any outcome of each), index 0 of the conversation exists and holds a
  message of role \<open>system\<close>, built from the system prompt: it is set at initialisation and
  never removed. \<open>chat\<close>, \<open>compact\<close>, \<open>clear\<close>, \<open>saveCheckpoint\<close> and \<open>switchProvider\<close> leave the
  message at index 0 exactly as they found it. It is replaced only by \<open>refreshContext\<close>, with
  the system message built anew from the files just loaded, and by a successful
  \<open>restoreCheckpoint\<close>, with the index-0 system message of the checkpoint restored; a failed
  \<open>restoreCheckpoint\<close> changes nothing.
\<close>

theorem index0_system_invariant:
  assumes "fst (initialize e created (newAgent options sid now loaded)) = Inr ()"
  shows "systemFirst (messages (run reg xs (snd (initialize e created (newAgent options sid now loaded)))))
       \<and> promptFirst (messages (run reg xs (snd (initialize e created (newAgent options sid now loaded)))))
       \<and> (keepsIndex0 x \<longrightarrow>
            messages (applyOperation reg x
              (run reg xs (snd (initialize e created (newAgent options sid now loaded))))) ! 0 =
            messages (run reg xs (snd (initialize e created (newAgent options sid now loaded)))) ! 0)
       \<and> messages (snd (refreshContext e' loaded'
              (run reg xs (snd (initialize e created (newAgent options sid now loaded)))))) ! 0 =
            systemMessage e'
              (config (run reg xs (snd (initialize e created (newAgent options sid now loaded))))) loaded'
              (workspaceDir (run reg xs (snd (initialize e created (newAgent options sid now loaded)))))
       \<and> (\<not> fst (restoreCheckpoint k (run reg xs (snd (initialize e created (newAgent options sid now loaded))))) \<longrightarrow>
            snd (restoreCheckpoint k (run reg xs (snd (initialize e created (newAgent options sid now loaded))))) =
            run reg xs (snd (initialize e created (newAgent options sid now loaded))))
       \<and> (fst (restoreCheckpoint k (run reg xs (snd (initialize e created (newAgent options sid now loaded))))) \<longrightarrow>
            (\<exists>c\<in>set (checkpoints (session
                      (run reg xs (snd (initialize e created (newAgent options sid now loaded)))))).
               matches k c \<and> promptFirst (cp_messages c) \<and>
               messages (snd (restoreCheckpoint k
                 (run reg xs (snd (initialize e created (newAgent options sid now loaded)))))) =
               cp_messages c))"
proof -
  let ?s = "run reg xs (snd (initialize e created (newAgent options sid now loaded)))"
  have s: "soundAgent ?s"
    by (rule sound_run[OF sound_after_initialize[OF assms]])
  then have p: "promptFirst (messages ?s)" by (simp add: soundAgent_def)
  have k: "keepsIndex0 x \<longrightarrow> messages (applyOperation reg x ?s) ! 0 = messages ?s ! 0"
    using index0_kept[OF p] by blast
  have r: "messages (snd (refreshContext e' loaded' ?s)) ! 0 =
             systemMessage e' (config ?s) loaded' (workspaceDir ?s)"
    by (rule refresh_sets_index0[OF p])
  have f: "\<not> fst (restoreCheckpoint k ?s) \<longrightarrow> snd (restoreCheckpoint k ?s) = ?s"
    using restore_failed_unchanged by blast
  have t: "fst (restoreCheckpoint k ?s) \<longrightarrow>
             (\<exists>c\<in>set (checkpoints (session ?s)).
                matches k c \<and> promptFirst (cp_messages c) \<and>
                messages (snd (restoreCheckpoint k ?s)) = cp_messages c)"
    using restore_takes_stored[of k ?s] s unfolding soundAgent_def by blast
  from p k r f t show ?thesis
    using promptFirst_systemFirst[OF p] by blast
qed

text \<open>
  A session that saves, loses a connection, clears, restores, compacts and refreshes; a
  \<open>chat\<close> whose connection drops leaves index 0 of its outcome alone; and restoring a
  checkpoint just saved under the tag \<open>start\<close> succeeds and leaves a built system prompt at
  index 0.
\<close>

theorem index0_system_invariant_witness:
  "fst (initialize sampleEnv (Inr sampleProvider) (newAgent sampleOptions ''session-1'' 0 [])) = Inr () \<and>
   systemFirst (messages (run sampleRegistry sampleSession
      (snd (initialize sampleEnv (Inr sampleProvider) (newAgent sampleOptions ''session-1'' 0 []))))) \<and>
   messages (applyOperation sampleRegistry (Chat droppedConnection ''more'')
      (run sampleRegistry sampleSession
        (snd (initialize sampleEnv (Inr sampleProvider) (newAgent sampleOptions ''session-1'' 0 []))))) ! 0 =
   messages (run sampleRegistry sampleSession
      (snd (initialize sampleEnv (Inr sampleProvider) (newAgent sampleOptions ''session-1'' 0 [])))) ! 0 \<and>
   fst (restoreCheckpoint ''start'' (run sampleRegistry [SaveCheckpoint (Some ''start'') ''id-1'' 1]
      (snd (initialize sampleEnv (Inr sampleProvider) (newAgent sampleOptions ''session-1'' 0 []))))) \<and>
   promptFirst (messages (snd (restoreCheckpoint ''start''
      (run sampleRegistry [SaveCheckpoint (Some ''start'') ''id-1'' 1]
        (snd (initialize sampleEnv (Inr sampleProvider) (newAgent sampleOptions ''session-1'' 0 [])))))))"
proof -
  let ?s0 = "snd (initialize sampleEnv (Inr sampleProvider) (newAgent sampleOptions ''session-1'' 0 []))"
  have i: "fst (initialize sampleEnv (Inr sampleProvider) (newAgent sampleOptions ''session-1'' 0 [])) = Inr ()"
    by (simp add: initialize_def newAgent_def sampleOptions_def)
  have r: "fst (restoreCheckpoint ''start'' (run sampleRegistry [SaveCheckpoint (Some ''start'') ''id-1'' 1] ?s0))"
    by (simp add: restoreCheckpoint_def saveCheckpoint_def Let_def initialize_def newAgent_def
          sampleOptions_def sampleConfig_def checkpointLimit_def)
  have p: "promptFirst (messages (snd (restoreCheckpoint ''start''
             (run sampleRegistry [SaveCheckpoint (Some ''start'') ''id-1'' 1] ?s0))))"
    using index0_system_invariant
            [OF i, where reg = sampleRegistry
                   and xs = "[SaveCheckpoint (Some ''start'') ''id-1'' 1, RestoreCheckpoint ''start'']"
                   and k = "''start''" and x = Compact and e' = sampleEnv and loaded' = "[]"]
    by simp
  from index0_system_invariant
         [OF i, where reg = sampleRegistry and xs = sampleSession
                and x = "Chat droppedConnection ''more''" and k = "''start''"
                and e' = sampleEnv and loaded' = "[]"]
  have q: "systemFirst (messages (run sampleRegistry sampleSession ?s0))"
    "messages (applyOperation sampleRegistry (Chat droppedConnection ''more'')
       (run sampleRegistry sampleSession ?s0)) ! 0 =
     messages (run sampleRegistry sampleSession ?s0) ! 0"
    by simp_all
  from i q r p show ?thesis by blast
qed

text \<open>
  Claim C5 as worded (index 0 is replaced only when context is refreshed) fails: after a
  checkpoint was saved and the context refreshed, \<open>restoreCheckpoint\<close> with the checkpoint's
  id puts back the system message of initialisation, which differs from the refreshed one.
\<close>

theorem restore_replaces_index0:
  "fst (restoreCheckpoint ''id-1'' refreshedAfterSave) \<and>
   messages (snd (restoreCheckpoint ''id-1'' refreshedAfterSave)) ! 0 =
     systemMessage sampleEnv (sampleConfig None) [] ''/work'' \<and>
   messages refreshedAfterSave ! 0 =
     systemMessage sampleEnv (sampleConfig None)
       [\<lparr>cf_path = ''/work/OMNI.md'', cf_content = ''Use tabs.'', cf_type = ''project''\<rparr>] ''/work'' \<and>
   messages (snd (restoreCheckpoint ''id-1'' refreshedAfterSave)) ! 0 \<noteq> messages refreshedAfterSave ! 0"
proof -
  have m: "messages refreshedAfterSave =
             [systemMessage sampleEnv (sampleConfig None)
                [\<lparr>cf_path = ''/work/OMNI.md'', cf_content = ''Use tabs.'', cf_type = ''project''\<rparr>] ''/work'']"
    by (simp add: refreshedAfterSave_def saveCheckpoint_def refreshContext_def Let_def
          readyAgent_fields systemMessage_def)
  have c: "map cp_id (checkpoints (session refreshedAfterSave)) = [''id-1''] \<and>
           map cp_messages (checkpoints (session refreshedAfterSave)) =
             [[systemMessage sampleEnv (sampleConfig None) [] ''/work'']]"
    by (simp add: refreshedAfterSave_def saveCheckpoint_def refreshContext_def Let_def
          readyAgent_fields sampleConfig_def checkpointLimit_def systemMessage_def)
  have d: "systemMessage sampleEnv (sampleConfig None) [] ''/work'' \<noteq>
           systemMessage sampleEnv (sampleConfig None)
             [\<lparr>cf_path = ''/work/OMNI.md'', cf_content = ''Use tabs.'', cf_type = ''project''\<rparr>] ''/work''"
    by (simp add: systemMessage_def buildSystemPrompt_def sampleEnv_def nl_def)
  obtain c0 where cs: "checkpoints (session refreshedAfterSave) = [c0]"
    and c0: "cp_id c0 = ''id-1''" "cp_messages c0 = [systemMessage sampleEnv (sampleConfig None) [] ''/work'']"
    using c by (cases "checkpoints (session refreshedAfterSave)") auto
  have r: "fst (restoreCheckpoint ''id-1'' refreshedAfterSave) \<and>
           messages (snd (restoreCheckpoint ''id-1'' refreshedAfterSave)) =
             [systemMessage sampleEnv (sampleConfig None) [] ''/work'']"
    by (simp add: restoreCheckpoint_def cs c0)
  from r m d show ?thesis by simp
qed

subsection \<open>Checkpoints\<close>

lemma save_length:
  assumes "0 < checkpointLimit (config ag)"
      and "int (length (checkpoints (session ag))) \<le> checkpointLimit (config ag)"
  shows "int (length (checkpoints (session (snd (saveCheckpoint tag cid now ag))))) \<le> checkpointLimit (config ag)"
  using assms by (auto simp: saveCheckpoint_def Let_def)

lemma save_config: "config (snd (saveCheckpoint tag cid now ag)) = config ag"
  by (simp add: saveCheckpoint_def Let_def)

lemma saves_length:
  assumes "0 < checkpointLimit (config ag)"
      and "int (length (checkpoints (session ag))) \<le> checkpointLimit (config ag)"
  shows "int (length (checkpoints (session (saveCheckpoints calls ag)))) \<le> checkpointLimit (config ag)"
  using assms
proof (induction calls arbitrary: ag)
  case Nil
  then show ?case by simp
next
  case (Cons call calls)
  obtain tag cid now where call: "call = (tag, cid, now)" by (cases call) auto
  let ?ag = "snd (saveCheckpoint tag cid now ag)"
  have "int (length (checkpoints (session (saveCheckpoints calls ?ag)))) \<le> checkpointLimit (config ?ag)"
    by (rule Cons.IH) (simp_all add: save_config save_length Cons.prems)
  then show ?case by (simp add: call save_config)
qed

lemma save_checkpoints:
  "checkpoints (session (snd (saveCheckpoint tag cid now ag))) =
     (if int (length (checkpoints (session ag))) + 1 > checkpointLimit (config ag)
      then tl (checkpoints (session ag) @ [fst (saveCheckpoint tag cid now ag)])
      else checkpoints (session ag) @ [fst (saveCheckpoint tag cid now ag)])"
  by (simp add: saveCheckpoint_def Let_def)

lemma save_current:
  "currentCheckpoint (session (snd (saveCheckpoint tag cid now ag))) =
     (if int (length (checkpoints (session ag))) + 1 > checkpointLimit (config ag)
      then int (length (checkpoints (session ag))) - 1
      else int (length (checkpoints (session ag))))"
  by (simp add: saveCheckpoint_def Let_def)

lemma save_last:
  assumes "0 < checkpointLimit (config ag)"
  shows "checkpoints (session (snd (saveCheckpoint tag cid now ag))) \<noteq> [] \<and>
         last (checkpoints (session (snd (saveCheckpoint tag cid now ag)))) = fst (saveCheckpoint tag cid now ag)"
proof (cases "checkpoints (session ag)")
  case Nil
  with assms show ?thesis by (simp add: save_checkpoints)
next
  case (Cons c cs)
  then show ?thesis by (simp add: save_checkpoints)
qed

lemma restore_succeeds_iff:
  "fst (restoreCheckpoint idOrTag ag) = (\<exists>c\<in>set (checkpoints (session ag)). matches idOrTag c)"
  by (auto simp: restoreCheckpoint_def matches_def find_None_iff find_Some_iff split: option.splits)

text \<open>\<^verbatim>\<open>find\<close> and \<^verbatim>\<open>indexOf\<close> agree on the first position that satisfies the predicate.\<close>

lemma first_match:
  assumes "i < length xs" and "P (xs ! i)" and "\<forall>j<i. \<not> P (xs ! j)"
  shows "find P xs = Some (xs ! i) \<and> indexOf xs (xs ! i) = int i"
  using assms
proof (induction xs arbitrary: i)
  case Nil
  then show ?case by simp
next
  case (Cons x xs)
  show ?case
  proof (cases i)
    case 0
    with Cons.prems show ?thesis by simp
  next
    case (Suc k)
    from Cons.prems Suc have nx: "\<not> P x" by auto
    from Cons.prems Suc have k: "k < length xs" "P (xs ! k)" "\<forall>j<k. \<not> P (xs ! j)" by auto
    from Cons.IH[OF k] have ih: "find P xs = Some (xs ! k)" "indexOf xs (xs ! k) = int k" by auto
    from nx k(2) have "x \<noteq> xs ! k" by auto
    with ih nx Suc show ?thesis by (simp add: Let_def)
  qed
qed

lemma restore_first_match:
  assumes "i < length (checkpoints (session ag))"
      and "matches idOrTag (checkpoints (session ag) ! i)"
      and "\<forall>j<i. \<not> matches idOrTag (checkpoints (session ag) ! j)"
  shows "restoreCheckpoint idOrTag ag =
           (True, ag\<lparr>messages := cp_messages (checkpoints (session ag) ! i),
                     session := (session ag)\<lparr>currentCheckpoint := int i\<rparr>\<rparr>)"
  using first_match[of i "checkpoints (session ag)" "matches idOrTag", OF assms]
  by (simp add: restoreCheckpoint_def matches_def[abs_def])

lemma restore_no_match:
  assumes "\<forall>c\<in>set (checkpoints (session ag)). \<not> matches idOrTag c"
  shows "restoreCheckpoint idOrTag ag = (False, ag)"
proof -
  have "find (matches idOrTag) (checkpoints (session ag)) = None"
    using assms by (simp add: find_None_iff)
  then show ?thesis by (simp add: restoreCheckpoint_def matches_def[abs_def])
qed

text \<open>
  Claim C6. Let \<open>M\<close> be the configured maximum, \<^verbatim>\<open>config.maxCheckpoints || 10\<close>, a positive
  number, and let the list hold at most \<open>M\<close> checkpoints (a new agent holds none). Then
  after any sequence of \<open>saveCheckpoint\<close> calls the list still holds at most \<open>M\<close>;
  \<open>restoreCheckpoint\<close> with the id of a checkpoint just saved succeeds; a save that takes
  the list beyond \<open>M\<close> drops the checkpoint at index 0, keeps the others in order with the
  new one last, and leaves \<open>currentCheckpoint\<close> one below the index the push gave it;
  a save that does not go beyond \<open>M\<close> appends and points \<open>currentCheckpoint\<close> at the new
  last index.
\<close>

theorem checkpoint_bound:
  assumes "0 < checkpointLimit (config ag)"
      and "int (length (checkpoints (session ag))) \<le> checkpointLimit (config ag)"
  shows "int (length (checkpoints (session (saveCheckpoints calls ag)))) \<le> checkpointLimit (config ag)
       \<and> fst (restoreCheckpoint cid (snd (saveCheckpoint tag cid now ag)))
       \<and> (checkpointLimit (config ag) < int (length (checkpoints (session ag))) + 1 \<longrightarrow>
            checkpoints (session (snd (saveCheckpoint tag cid now ag))) =
              tl (checkpoints (session ag)) @ [fst (saveCheckpoint tag cid now ag)]
          \<and> currentCheckpoint (session (snd (saveCheckpoint tag cid now ag))) =
              int (length (checkpoints (session ag))) - 1)
       \<and> (int (length (checkpoints (session ag))) + 1 \<le> checkpointLimit (config ag) \<longrightarrow>
            checkpoints (session (snd (saveCheckpoint tag cid now ag))) =
              checkpoints (session ag) @ [fst (saveCheckpoint tag cid now ag)]
          \<and> currentCheckpoint (session (snd (saveCheckpoint tag cid now ag))) =
              int (length (checkpoints (session ag))))"
proof (intro conjI impI)
  show "int (length (checkpoints (session (saveCheckpoints calls ag)))) \<le> checkpointLimit (config ag)"
    by (rule saves_length[OF assms])
next
  let ?cs = "checkpoints (session (snd (saveCheckpoint tag cid now ag)))"
  from save_last[OF assms(1), of tag cid now]
  have "?cs \<noteq> []" "last ?cs = fst (saveCheckpoint tag cid now ag)"
    by auto
  then have "fst (saveCheckpoint tag cid now ag) \<in> set ?cs"
    using last_in_set by metis
  moreover have "matches cid (fst (saveCheckpoint tag cid now ag))"
    by (simp add: matches_def saveCheckpoint_def Let_def)
  ultimately show "fst (restoreCheckpoint cid (snd (saveCheckpoint tag cid now ag)))"
    unfolding restore_succeeds_iff by blast
next
  assume over: "checkpointLimit (config ag) < int (length (checkpoints (session ag))) + 1"
  with assms(1) have ne: "checkpoints (session ag) \<noteq> []" by auto
  from over ne show "checkpoints (session (snd (saveCheckpoint tag cid now ag))) =
      tl (checkpoints (session ag)) @ [fst (saveCheckpoint tag cid now ag)]"
    by (simp add: save_checkpoints)
  from over show "currentCheckpoint (session (snd (saveCheckpoint tag cid now ag))) =
      int (length (checkpoints (session ag))) - 1"
    by (simp add: save_current)
next
  assume fits: "int (length (checkpoints (session ag))) + 1 \<le> checkpointLimit (config ag)"
  then show "checkpoints (session (snd (saveCheckpoint tag cid now ag))) =
      checkpoints (session ag) @ [fst (saveCheckpoint tag cid now ag)]"
    by (simp add: save_checkpoints)
  from fits show "currentCheckpoint (session (snd (saveCheckpoint tag cid now ag))) =
      int (length (checkpoints (session ag)))"
    by (simp add: save_current)
qed

text \<open>Twelve saves under the default maximum of ten.\<close>

theorem checkpoint_bound_witness:
  "0 < checkpointLimit (config (readyAgent None None)) \<and>
   int (length (checkpoints (session (readyAgent None None)))) \<le> checkpointLimit (config (readyAgent None None)) \<and>
   int (length (checkpoints (session (saveCheckpoints twelveSaves (readyAgent None None))))) \<le> 10 \<and>
   fst (restoreCheckpoint ''id-1'' (snd (saveCheckpoint None ''id-1'' 1 (readyAgent None None))))"
  using checkpoint_bound[of "readyAgent None None" twelveSaves "''id-1''" None 1]
  by (simp add: readyAgent_fields sampleConfig_def checkpointLimit_def)

lemma find_id_then_tag:
  assumes "freshIds cs"
  shows "find (\<lambda>c. cp_id c = k \<or> cp_tag c = Some k) cs = lookupIdThenTag k cs"
  using assms
proof (induction cs)
  case Nil
  then show ?case by (simp add: lookupIdThenTag_def)
next
  case (Cons c cs)
  then have later: "\<forall>d\<in>set cs. cp_tag c \<noteq> Some (cp_id d)" and rest: "freshIds cs"
    by (simp_all add: list_all_iff)
  show ?case
  proof (cases "cp_id c = k")
    case True
    then show ?thesis by (simp add: lookupIdThenTag_def)
  next
    case noId: False
    show ?thesis
    proof (cases "cp_tag c = Some k")
      case True
      with later have "\<forall>d\<in>set cs. cp_id d \<noteq> k" by auto
      then have "find (\<lambda>c. cp_id c = k) cs = None" by (simp add: find_None_iff)
      with True noId show ?thesis by (simp add: lookupIdThenTag_def)
    next
      case False
      with noId Cons.IH[OF rest] show ?thesis
        by (simp add: lookupIdThenTag_def split: option.splits)
    qed
  qed
qed

lemma find_position:
  assumes "find P xs = Some c"
  shows "\<exists>i<length xs. xs ! i = c \<and> (\<forall>j<i. xs ! j \<noteq> c) \<and> indexOf xs c = int i"
proof -
  from assms obtain i where i: "i < length xs" "P (xs ! i)" "c = xs ! i" "\<forall>j<i. \<not> P (xs ! j)"
    unfolding find_Some_iff by blast
  from first_match[OF i(1,2,4)] have "indexOf xs c = int i" by (simp add: i(3))
  moreover from i have "\<forall>j<i. xs ! j \<noteq> c" by auto
  ultimately show ?thesis using i by blast
qed

lemma freshIds_snoc:
  assumes "freshIds cs" and "\<forall>c\<in>set cs. cp_tag c \<noteq> Some (cp_id n)"
  shows "freshIds (cs @ [n])"
  using assms by (induction cs) (simp_all add: list_all_iff)

lemma freshIds_tl: "freshIds cs \<Longrightarrow> freshIds (tl cs)"
  by (cases cs) simp_all

lemma save_keeps_fresh:
  assumes "freshIds (checkpoints (session ag))"
      and "\<forall>c\<in>set (checkpoints (session ag)). cp_tag c \<noteq> Some cid"
  shows "freshIds (checkpoints (session (snd (saveCheckpoint tag cid now ag))))"
proof -
  have n: "cp_id (fst (saveCheckpoint tag cid now ag)) = cid"
    by (simp add: saveCheckpoint_def Let_def)
  have "freshIds (checkpoints (session ag) @ [fst (saveCheckpoint tag cid now ag)])"
    by (rule freshIds_snoc[OF assms(1)]) (simp add: n assms(2))
  then show ?thesis by (simp add: save_checkpoints freshIds_tl)
qed

text \<open>
  Claim C7. The identifiers of checkpoints are fresh draws, so the list never holds a tag
  that equals the identifier of a checkpoint saved later; saving under an identifier that
  no stored tag equals keeps it so. On such a list \<open>restoreCheckpoint\<close> selects exactly what
  an exact-match lookup by id first, then by tag, selects. When that lookup finds nothing,
  it returns false and the agent, conversation and \<open>currentCheckpoint\<close> included, is
  unchanged. When it finds a checkpoint, \<open>restoreCheckpoint\<close> returns true, the conversation
  becomes that checkpoint's messages, equal message for message, \<open>currentCheckpoint\<close> becomes
  the position of that checkpoint in the list, and nothing else changes: the stored
  checkpoints stay as they were.
\<close>

theorem restore_id_first_then_tag:
  assumes "freshIds (checkpoints (session ag))"
  shows "(lookupIdThenTag k (checkpoints (session ag)) = None \<longrightarrow>
            restoreCheckpoint k ag = (False, ag))
       \<and> (\<forall>c. lookupIdThenTag k (checkpoints (session ag)) = Some c \<longrightarrow>
            (\<exists>i<length (checkpoints (session ag)).
               checkpoints (session ag) ! i = c \<and>
               (\<forall>j<i. checkpoints (session ag) ! j \<noteq> c) \<and>
               restoreCheckpoint k ag =
                 (True, ag\<lparr>messages := cp_messages c,
                           session := (session ag)\<lparr>currentCheckpoint := int i\<rparr>\<rparr>)))
       \<and> ((\<forall>c\<in>set (checkpoints (session ag)). cp_tag c \<noteq> Some cid) \<longrightarrow>
            freshIds (checkpoints (session (snd (saveCheckpoint tag cid now ag)))))"
proof (intro conjI impI allI)
  assume "lookupIdThenTag k (checkpoints (session ag)) = None"
  then have "find (\<lambda>c. cp_id c = k \<or> cp_tag c = Some k) (checkpoints (session ag)) = None"
    by (simp add: find_id_then_tag[OF assms])
  then show "restoreCheckpoint k ag = (False, ag)"
    by (simp add: restoreCheckpoint_def)
next
  fix c
  assume "lookupIdThenTag k (checkpoints (session ag)) = Some c"
  then have f: "find (\<lambda>c. cp_id c = k \<or> cp_tag c = Some k) (checkpoints (session ag)) = Some c"
    by (simp add: find_id_then_tag[OF assms])
  from find_position[OF f] obtain i where i: "i < length (checkpoints (session ag))"
    "checkpoints (session ag) ! i = c" "\<forall>j<i. checkpoints (session ag) ! j \<noteq> c"
    "indexOf (checkpoints (session ag)) c = int i"
    by blast
  from f i(4) have "restoreCheckpoint k ag =
      (True, ag\<lparr>messages := cp_messages c, session := (session ag)\<lparr>currentCheckpoint := int i\<rparr>\<rparr>)"
    by (simp add: restoreCheckpoint_def)
  with i(1,2,3) show "\<exists>i<length (checkpoints (session ag)).
      checkpoints (session ag) ! i = c \<and>
      (\<forall>j<i. checkpoints (session ag) ! j \<noteq> c) \<and>
      restoreCheckpoint k ag =
        (True, ag\<lparr>messages := cp_messages c, session := (session ag)\<lparr>currentCheckpoint := int i\<rparr>\<rparr>)"
    by blast
next
  assume "\<forall>c\<in>set (checkpoints (session ag)). cp_tag c \<noteq> Some cid"
  then show "freshIds (checkpoints (session (snd (saveCheckpoint tag cid now ag))))"
    by (rule save_keeps_fresh[OF assms])
qed

text \<open>
  On the two sample checkpoints: an unknown key fails; the tag \<open>start\<close> restores the
  checkpoint at position 0; the identifier of the second restores position 1.
\<close>

theorem restore_id_first_then_tag_witness:
  "freshIds (checkpoints (session twoCheckpoints)) \<and>
   restoreCheckpoint ''missing'' twoCheckpoints = (False, twoCheckpoints) \<and>
   restoreCheckpoint ''start'' twoCheckpoints =
     (True, twoCheckpoints
        \<lparr>messages := [systemMessage sampleEnv (sampleConfig None) [] ''/work''],
         session := (session twoCheckpoints)\<lparr>currentCheckpoint := 0\<rparr>\<rparr>) \<and>
   restoreCheckpoint ''4f9c2d1e-8a7b-4c3d-9e2f-1a2b3c4d5e6f'' twoCheckpoints =
     (True, twoCheckpoints
        \<lparr>messages := [systemMessage sampleEnv (sampleConfig None) [] ''/work'',
                      Some \<lparr>role = User, content = Text ''hi''\<rparr>,
                      Some \<lparr>role = Assistant, content = Text ''hello''\<rparr>],
         session := (session twoCheckpoints)\<lparr>currentCheckpoint := 1\<rparr>\<rparr>)"
proof -
  let ?cs = "checkpoints (session twoCheckpoints)"
  have f: "freshIds ?cs" by (simp add: twoCheckpoints_checkpoints)
  have l: "length ?cs = 2" by (simp add: twoCheckpoints_checkpoints)
  note t = restore_id_first_then_tag[OF f]
  have a: "restoreCheckpoint ''missing'' twoCheckpoints = (False, twoCheckpoints)"
    using t[of "''missing''"] by (simp add: lookupIdThenTag_def twoCheckpoints_checkpoints)
  have "lookupIdThenTag ''start'' ?cs = Some (?cs ! 0)"
    by (simp add: lookupIdThenTag_def twoCheckpoints_checkpoints)
  with t[of "''start''"] obtain i where i: "i < length ?cs" "?cs ! i = ?cs ! 0" "\<forall>j<i. ?cs ! j \<noteq> ?cs ! 0"
    "restoreCheckpoint ''start'' twoCheckpoints =
       (True, twoCheckpoints\<lparr>messages := cp_messages (?cs ! 0),
                session := (session twoCheckpoints)\<lparr>currentCheckpoint := int i\<rparr>\<rparr>)"
    by blast
  from i(3) have "i = 0" by (cases i) auto
  with i(4) have b: "restoreCheckpoint ''start'' twoCheckpoints =
      (True, twoCheckpoints\<lparr>messages := [systemMessage sampleEnv (sampleConfig None) [] ''/work''],
               session := (session twoCheckpoints)\<lparr>currentCheckpoint := 0\<rparr>\<rparr>)"
    by (simp add: twoCheckpoints_checkpoints)
  have "lookupIdThenTag ''4f9c2d1e-8a7b-4c3d-9e2f-1a2b3c4d5e6f'' ?cs = Some (?cs ! 1)"
    by (simp add: lookupIdThenTag_def twoCheckpoints_checkpoints)
  with t[of "''4f9c2d1e-8a7b-4c3d-9e2f-1a2b3c4d5e6f''"]
  obtain n where n: "n < length ?cs" "?cs ! n = ?cs ! 1"
    "restoreCheckpoint ''4f9c2d1e-8a7b-4c3d-9e2f-1a2b3c4d5e6f'' twoCheckpoints =
       (True, twoCheckpoints\<lparr>messages := cp_messages (?cs ! 1),
                session := (session twoCheckpoints)\<lparr>currentCheckpoint := int n\<rparr>\<rparr>)"
    by blast
  have "?cs ! 0 \<noteq> ?cs ! 1" by (simp add: twoCheckpoints_checkpoints)
  with n(1,2) l have "n = 1" by (cases n) auto
  with n(3) have c: "restoreCheckpoint ''4f9c2d1e-8a7b-4c3d-9e2f-1a2b3c4d5e6f'' twoCheckpoints =
      (True, twoCheckpoints
         \<lparr>messages := [systemMessage sampleEnv (sampleConfig None) [] ''/work'',
                       Some \<lparr>role = User, content = Text ''hi''\<rparr>,
                       Some \<lparr>role = Assistant, content = Text ''hello''\<rparr>],
          session := (session twoCheckpoints)\<lparr>currentCheckpoint := 1\<rparr>\<rparr>)"
    by (simp add: twoCheckpoints_checkpoints)
  from f a b c show ?thesis by simp
qed

text \<open>
  Freshness is what makes the single pass of \<^verbatim>\<open>find\<close> a lookup by id first: on a list where
  an earlier checkpoint carries as its tag the identifier of a later one, lookup by id
  first finds the later checkpoint while \<open>restoreCheckpoint\<close> restores the earlier one.
\<close>

lemma stale_list_differs:
  "\<not> freshIds (checkpoints (session taggedThenSaved)) \<and>
   lookupIdThenTag ''4f9c2d1e-8a7b-4c3d-9e2f-1a2b3c4d5e6f'' (checkpoints (session taggedThenSaved)) =
     Some (checkpoints (session taggedThenSaved) ! 1) \<and>
   currentCheckpoint (session (snd
     (restoreCheckpoint ''4f9c2d1e-8a7b-4c3d-9e2f-1a2b3c4d5e6f'' taggedThenSaved))) = 0"
  by (simp add: lookupIdThenTag_def restoreCheckpoint_def taggedThenSaved_checkpoints)

subsection \<open>Compaction\<close>

lemma slice_recent:
  "length recent = 4 \<Longrightarrow> slice (m0 # old @ recent) (- 4) (int (length (m0 # old @ recent))) = recent"
  by (simp add: slice_def Let_def nat_add_distrib)

lemma slice_old:
  "length recent = 4 \<Longrightarrow> slice (m0 # old @ recent) 1 (- 4) = old"
  by (simp add: slice_def Let_def)

lemma slice_take: "slice t 0 200 = take 200 t"
  by (simp add: slice_def Let_def min_def)

lemma slice_five: "length ms \<le> 5 \<Longrightarrow> 4 < length ms \<Longrightarrow> slice ms 1 (- 4) = []"
  by (simp add: slice_def Let_def)

lemma summaryLines_Some: "summaryLines (map Some old) = Some (map summaryLine old)"
  by (induction old) simp_all

text \<open>
  Claim C8, amended. \<open>compact\<close> leaves a conversation of at most five messages unchanged.
  On a conversation of more than five messages (its elided slots holding messages) it keeps
  index 0 and the last four messages as they are and puts in place of everything strictly
  between them exactly one message of role \<open>system\<close>, whose body is the start marker, then
  one line per elided message, joined by newlines, then the end marker. The line of a
  message with string content is its role, a colon and a space, and the first 200
  characters of the content.
\<close>

theorem compact_summarises_between:
  "(length (messages ag) \<le> 5 \<longrightarrow> compact ag = (Inr (), ag))
 \<and> (messages ag = m0 # map Some old @ recent \<and> old \<noteq> [] \<and> length recent = 4 \<longrightarrow>
      compact ag = (Inr (), ag\<lparr>messages := m0 # summaryMessage (map summaryLine old) # recent\<rparr>))
 \<and> summaryLine \<lparr>role = r, content = Text t\<rparr> = roleName r @ '': '' @ take 200 t"
proof (intro conjI impI)
  assume "length (messages ag) \<le> 5"
  then show "compact ag = (Inr (), ag)"
    by (simp add: compact_def Let_def slice_five)
next
  assume a: "messages ag = m0 # map Some old @ recent \<and> old \<noteq> [] \<and> length recent = 4"
  then have r: "slice (messages ag) (- 4) (int (length (messages ag))) = recent"
    using slice_recent[of recent m0 "map Some old"] by simp
  from a have o: "slice (messages ag) 1 (- 4) = map Some old"
    using slice_old[of recent m0 "map Some old"] by simp
  from a have z: "messages ag ! 0 = m0" by simp
  from a have l: "\<not> length (messages ag) \<le> 4" by simp
  show "compact ag = (Inr (), ag\<lparr>messages := m0 # summaryMessage (map summaryLine old) # recent\<rparr>)"
    unfolding compact_def Let_def r o z using a l by (simp add: summaryLines_Some)
next
  show "summaryLine \<lparr>role = r, content = Text t\<rparr> = roleName r @ '': '' @ take 200 t"
    by (simp add: summaryLine_def slice_take)
qed

theorem compact_summarises_between_witness:
  "length (messages fiveMessages) \<le> 5 \<and>
   compact fiveMessages = (Inr (), fiveMessages) \<and>
   messages (snd (compact sevenMessages)) =
     [systemMessage sampleEnv (sampleConfig None) [] ''/work'',
      Some \<lparr>role = System,
            content = Text (''[Previous conversation summary]'' @ nl @ ''user: hi'' @ nl @
                            ''assistant: hello'' @ nl @ ''[End summary]'')\<rparr>,
      Some \<lparr>role = User, content = Text ''how are you''\<rparr>,
      Some \<lparr>role = Assistant, content = Text ''fine''\<rparr>,
      Some \<lparr>role = User, content = Text ''goodbye''\<rparr>,
      Some \<lparr>role = Assistant, content = Text ''bye''\<rparr>]"
  using compact_summarises_between[of fiveMessages]
        compact_summarises_between
          [of sevenMessages "systemMessage sampleEnv (sampleConfig None) [] ''/work''"
              "[\<lparr>role = User, content = Text ''hi''\<rparr>, \<lparr>role = Assistant, content = Text ''hello''\<rparr>]"
              "[Some \<lparr>role = User, content = Text ''how are you''\<rparr>,
                Some \<lparr>role = Assistant, content = Text ''fine''\<rparr>,
                Some \<lparr>role = User, content = Text ''goodbye''\<rparr>,
                Some \<lparr>role = Assistant, content = Text ''bye''\<rparr>]"]
  by (simp add: fiveMessages_messages sevenMessages_messages summaryMessage_def summaryLine_def
        roleName_def slice_def)

text \<open>
  Claim C8 as worded (every conversation of more than four messages receives the one
  synthetic message) fails at five messages: nothing lies between index 0 and the last
  four, and \<open>compact\<close> returns the conversation unchanged instead of inserting a summary.
\<close>

theorem compact_five_messages_unchanged:
  "4 < length (messages fiveMessages) \<and>
   compact fiveMessages = (Inr (), fiveMessages) \<and>
   messages (snd (compact fiveMessages)) \<noteq>
     messages fiveMessages ! 0 # summaryMessage [] # slice (messages fiveMessages) (- 4) 5"
proof -
  have c: "compact fiveMessages = (Inr (), fiveMessages)"
    by (simp add: compact_def Let_def fiveMessages_messages slice_def)
  show ?thesis unfolding c by (simp add: fiveMessages_messages summaryMessage_def)
qed

end
